theory Spec2Isabelle
  imports Main "HOL-Library.Sublist"
begin

section \<open>The credential store: tables of the migration\<close>

text \<open>
  The tables of \<^verbatim>\<open>supabase/migrations/20260219094000_mcp_api_keys.sql\<close>, with the
  \<^verbatim>\<open>user_id\<close> column the self-service migration adds. A \<^verbatim>\<open>uuid\<close> and a
  \<^verbatim>\<open>text\<close> are strings, a nullable column is an option, a \<^verbatim>\<open>timestamptz\<close> is
  the number of microseconds since the epoch and a \<^verbatim>\<open>date\<close> the number of days
  since the epoch. An \<^verbatim>\<open>integer\<close> is an \<open>int\<close>; PostgreSQL raises
  \<^verbatim>\<open>integer out of range\<close> where a result leaves the 32-bit range, which the
  model writes out at the one place the functions compute (\<^verbatim>\<open>request_count + 1\<close>).
\<close>

type_synonym uuid = string
type_synonym timestamptz = int
type_synonym date = int

record key_row =
  key_id :: uuid
  key_name :: "string option"
  key_prefix :: string
  key_hash :: string
  tier :: string
  status :: string
  daily_quota :: "int option"
  per_minute_quota :: "int option"
  metadata :: string
  created_at :: timestamptz
  updated_at :: timestamptz
  last_used_at :: "timestamptz option"
  user_id :: "uuid option"

record usage_row =
  request_count :: int
  usage_updated_at :: timestamptz

text \<open>
  The two usage tables are keyed by their primary keys,
  \<^verbatim>\<open>(api_key_id, usage_date)\<close> and \<^verbatim>\<open>(api_key_id, minute_start)\<close>; the key
  table is the list of its rows.
\<close>

record db_state =
  mcp_api_keys :: "key_row list"
  mcp_api_usage_daily :: "uuid \<times> date \<rightharpoonup> usage_row"
  mcp_api_usage_minute :: "uuid \<times> timestamptz \<rightharpoonup> usage_row"

datatype db_error = Not_authenticated | Integer_out_of_range

text \<open>The row \<^verbatim>\<open>consume_mcp_api_request\<close> returns, read by the server as \<^verbatim>\<open>ConsumeRpcRow\<close>.\<close>

record ConsumeRpcRow =
  allowed :: bool
  reason :: string
  api_key_id :: "uuid option"
  row_key_name :: "string option"
  row_tier :: "string option"
  row_daily_quota :: "int option"
  daily_count :: "int option"
  row_per_minute_quota :: "int option"
  minute_count :: "int option"

definition int4_max :: int where
  "int4_max = 2147483647"

definition utc_date :: "timestamptz \<Rightarrow> date" where
  \<comment> \<open>\<^verbatim>\<open>(p_now AT TIME ZONE 'UTC')::date\<close>\<close>
  "utc_date p_now = p_now div 86400000000"

definition date_trunc_minute :: "timestamptz \<Rightarrow> timestamptz" where
  \<comment> \<open>\<^verbatim>\<open>date_trunc('minute', p_now)\<close>\<close>
  "date_trunc_minute p_now = p_now - p_now mod 60000000"

subsection \<open>The conditional upsert\<close>

text \<open>
  \<^verbatim>\<open>INSERT ... VALUES (id, window, 1, p_now) ON CONFLICT ... DO UPDATE SET
  request_count = request_count + 1, updated_at = EXCLUDED.updated_at RETURNING
  request_count\<close>: the statement of the unlimited branch. The result is the table and
  what \<^verbatim>\<open>RETURNING ... INTO\<close> leaves in the variable.
\<close>

definition upsert_increment ::
  "('k \<rightharpoonup> usage_row) \<Rightarrow> 'k \<Rightarrow> timestamptz \<Rightarrow> db_error + (int option \<times> ('k \<rightharpoonup> usage_row))" where
  "upsert_increment tbl k p_now =
     (case tbl k of
        None \<Rightarrow> Inr (Some 1, tbl(k \<mapsto> \<lparr>request_count = 1, usage_updated_at = p_now\<rparr>))
      | Some r \<Rightarrow>
          if int4_max < request_count r + 1 then Inl Integer_out_of_range
          else Inr (Some (request_count r + 1),
                    tbl(k \<mapsto> \<lparr>request_count = request_count r + 1, usage_updated_at = p_now\<rparr>)))"

text \<open>
  The same statement with \<^verbatim>\<open>WHERE request_count < quota\<close> on the update: the
  condition guards the update of an existing row only; with no row the insert goes
  through. Where the condition fails no row is returned and the variable stays null.
\<close>

definition upsert_increment_below ::
  "('k \<rightharpoonup> usage_row) \<Rightarrow> 'k \<Rightarrow> int \<Rightarrow> timestamptz \<Rightarrow> db_error + (int option \<times> ('k \<rightharpoonup> usage_row))" where
  "upsert_increment_below tbl k quota p_now =
     (case tbl k of
        None \<Rightarrow> Inr (Some 1, tbl(k \<mapsto> \<lparr>request_count = 1, usage_updated_at = p_now\<rparr>))
      | Some r \<Rightarrow>
          if request_count r < quota then
            (if int4_max < request_count r + 1 then Inl Integer_out_of_range
             else Inr (Some (request_count r + 1),
                       tbl(k \<mapsto> \<lparr>request_count = request_count r + 1, usage_updated_at = p_now\<rparr>)))
          else Inr (None, tbl))"

definition charge_window ::
  "('k \<rightharpoonup> usage_row) \<Rightarrow> 'k \<Rightarrow> int option \<Rightarrow> timestamptz \<Rightarrow> db_error + (int option \<times> ('k \<rightharpoonup> usage_row))" where
  \<comment> \<open>\<^verbatim>\<open>IF quota IS NULL THEN\<close> the unconditional statement \<^verbatim>\<open>ELSE\<close> the guarded one\<close>
  "charge_window tbl k quota p_now =
     (case quota of
        None \<Rightarrow> upsert_increment tbl k p_now
      | Some q \<Rightarrow> upsert_increment_below tbl k q p_now)"

subsection \<open>\<^verbatim>\<open>consume_mcp_api_request\<close>\<close>

definition rejection_row :: "string \<Rightarrow> key_row \<Rightarrow> int option \<Rightarrow> int option \<Rightarrow> ConsumeRpcRow" where
  "rejection_row why v_key v_daily_count v_minute_count =
     \<lparr>allowed = False, reason = why, api_key_id = Some (key_id v_key),
      row_key_name = key_name v_key, row_tier = Some (tier v_key),
      row_daily_quota = daily_quota v_key, daily_count = v_daily_count,
      row_per_minute_quota = per_minute_quota v_key, minute_count = v_minute_count\<rparr>"

definition touch_last_used :: "timestamptz \<Rightarrow> timestamptz \<Rightarrow> uuid \<Rightarrow> key_row list \<Rightarrow> key_row list" where
  \<comment> \<open>\<^verbatim>\<open>UPDATE mcp_api_keys SET last_used_at = p_now WHERE id = v_key.id\<close>; the
      \<^verbatim>\<open>BEFORE UPDATE\<close> trigger sets \<^verbatim>\<open>updated_at = now()\<close>\<close>
  "touch_last_used db_now p_now kid rows =
     map (\<lambda>k. if key_id k = kid then k\<lparr>last_used_at := Some p_now, updated_at := db_now\<rparr> else k) rows"

text \<open>
  \<open>db_now\<close> is the database's own \<^verbatim>\<open>now()\<close>, which the trigger reads; \<open>p_now\<close> is
  the argument. A raised error aborts the transaction, so \<open>Inl\<close> carries no state:
  the caller keeps the one it had.
\<close>

definition consume_mcp_api_request ::
  "timestamptz \<Rightarrow> db_state \<Rightarrow> string \<Rightarrow> timestamptz \<Rightarrow> db_error + (ConsumeRpcRow \<times> db_state)" where
  "consume_mcp_api_request db_now s p_key_hash p_now =
     (case find (\<lambda>k. key_hash k = p_key_hash) (mcp_api_keys s) of
        None \<Rightarrow>
          Inr (\<lparr>allowed = False, reason = ''invalid_key'', api_key_id = None,
                row_key_name = None, row_tier = None, row_daily_quota = None,
                daily_count = None, row_per_minute_quota = None, minute_count = None\<rparr>, s)
      | Some v_key \<Rightarrow>
          if status v_key \<noteq> ''active'' then
            Inr (rejection_row ''revoked_key'' v_key None None, s)
          else
            let v_day = utc_date p_now;
                v_minute = date_trunc_minute p_now
            in
            (case charge_window (mcp_api_usage_minute s) (key_id v_key, v_minute)
                    (per_minute_quota v_key) p_now of
               Inl e \<Rightarrow> Inl e
             | Inr (None, um) \<Rightarrow>
                 Inr (rejection_row ''minute_limit_exceeded'' v_key None
                        (map_option request_count (um (key_id v_key, v_minute))),
                      s\<lparr>mcp_api_usage_minute := um\<rparr>)
             | Inr (Some v_minute_count, um) \<Rightarrow>
                 (case charge_window (mcp_api_usage_daily s) (key_id v_key, v_day)
                         (daily_quota v_key) p_now of
                    Inl e \<Rightarrow> Inl e
                  | Inr (None, ud) \<Rightarrow>
                      Inr (rejection_row ''daily_limit_exceeded'' v_key
                             (map_option request_count (ud (key_id v_key, v_day)))
                             (Some v_minute_count),
                           s\<lparr>mcp_api_usage_minute := um, mcp_api_usage_daily := ud\<rparr>)
                  | Inr (Some v_daily_count, ud) \<Rightarrow>
                      Inr (\<lparr>allowed = True, reason = ''ok'', api_key_id = Some (key_id v_key),
                            row_key_name = key_name v_key, row_tier = Some (tier v_key),
                            row_daily_quota = daily_quota v_key,
                            daily_count = Some v_daily_count,
                            row_per_minute_quota = per_minute_quota v_key,
                            minute_count = Some v_minute_count\<rparr>,
                           s\<lparr>mcp_api_usage_minute := um, mcp_api_usage_daily := ud,
                             mcp_api_keys :=
                               touch_last_used db_now p_now (key_id v_key) (mcp_api_keys s)\<rparr>))))"

subsection \<open>\<^verbatim>\<open>revoke_user_api_key\<close>\<close>

definition owned_active :: "uuid \<Rightarrow> uuid \<Rightarrow> key_row \<Rightarrow> bool" where
  \<comment> \<open>\<^verbatim>\<open>WHERE id = p_key_id AND user_id = v_user_id AND status = 'active'\<close>\<close>
  "owned_active p_key_id v_user_id k =
     (key_id k = p_key_id \<and> user_id k = Some v_user_id \<and> status k = ''active'')"

definition revoke_row :: "timestamptz \<Rightarrow> uuid \<Rightarrow> uuid \<Rightarrow> key_row \<Rightarrow> key_row" where
  \<comment> \<open>\<^verbatim>\<open>SET status = 'revoked'\<close> on the rows the \<^verbatim>\<open>WHERE\<close> selects; the
      \<^verbatim>\<open>BEFORE UPDATE\<close> trigger stamps them with \<^verbatim>\<open>now()\<close>\<close>
  "revoke_row db_now p_key_id v_user_id k =
     (if owned_active p_key_id v_user_id k
      then k\<lparr>status := ''revoked'', updated_at := db_now\<rparr> else k)"

definition revoke_user_api_key ::
  "timestamptz \<Rightarrow> uuid option \<Rightarrow> db_state \<Rightarrow> uuid \<Rightarrow> db_error + (bool \<times> db_state)" where
  \<comment> \<open>\<open>auth_uid\<close> is \<^verbatim>\<open>auth.uid()\<close>; the result is \<^verbatim>\<open>FOUND\<close> after the update\<close>
  "revoke_user_api_key db_now auth_uid s p_key_id =
     (case auth_uid of
        None \<Rightarrow> Inl Not_authenticated
      | Some v_user_id \<Rightarrow>
          Inr (list_ex (owned_active p_key_id v_user_id) (mcp_api_keys s),
               s\<lparr>mcp_api_keys :=
                   map (revoke_row db_now p_key_id v_user_id) (mcp_api_keys s)\<rparr>))"

section \<open>The authorization gateway: \<^verbatim>\<open>src/auth\<close>\<close>

text \<open>
  JavaScript strings are modelled as \<open>string\<close>, a list of 8-bit code units: the
  Latin-1 range, which is what Node gives for a header value. On that range \<open>trim\<close>
  strips what JavaScript's \<^verbatim>\<open>trim()\<close> strips (tab, line feed, vertical tab, form
  feed, carriage return, space and the no-break space U+00A0) and \<open>toLowerCase\<close> maps
  what \<^verbatim>\<open>toLowerCase()\<close> maps (\<open>A\<close>..\<open>Z\<close> and the capitals U+00C0..U+00DE but the
  multiplication sign U+00D7). The one other string given to them is the tier, which
  the table's check keeps to three ASCII words. Numbers that come from
  \<^verbatim>\<open>integer\<close> columns are exact in a double, so they are \<open>int\<close>.
\<close>

definition js_space :: "char \<Rightarrow> bool" where
  "js_space c =
     (c \<in> set [CHR '' '', CHR 0x09, CHR 0x0A, CHR 0x0B, CHR 0x0C, CHR 0x0D, CHR 0xA0])"

definition trim :: "string \<Rightarrow> string" where
  "trim s = rev (dropWhile js_space (rev (dropWhile js_space s)))"

definition lower_char :: "char \<Rightarrow> char" where
  "lower_char c =
     (case map_of
             (zip (''ABCDEFGHIJKLMNOPQRSTUVWXYZ'' @
                   [CHR 0xC0, CHR 0xC1, CHR 0xC2, CHR 0xC3, CHR 0xC4, CHR 0xC5, CHR 0xC6,
                    CHR 0xC7, CHR 0xC8, CHR 0xC9, CHR 0xCA, CHR 0xCB, CHR 0xCC, CHR 0xCD,
                    CHR 0xCE, CHR 0xCF, CHR 0xD0, CHR 0xD1, CHR 0xD2, CHR 0xD3, CHR 0xD4,
                    CHR 0xD5, CHR 0xD6, CHR 0xD8, CHR 0xD9, CHR 0xDA, CHR 0xDB, CHR 0xDC,
                    CHR 0xDD, CHR 0xDE])
                  (''abcdefghijklmnopqrstuvwxyz'' @
                   [CHR 0xE0, CHR 0xE1, CHR 0xE2, CHR 0xE3, CHR 0xE4, CHR 0xE5, CHR 0xE6,
                    CHR 0xE7, CHR 0xE8, CHR 0xE9, CHR 0xEA, CHR 0xEB, CHR 0xEC, CHR 0xED,
                    CHR 0xEE, CHR 0xEF, CHR 0xF0, CHR 0xF1, CHR 0xF2, CHR 0xF3, CHR 0xF4,
                    CHR 0xF5, CHR 0xF6, CHR 0xF8, CHR 0xF9, CHR 0xFA, CHR 0xFB, CHR 0xFC,
                    CHR 0xFD, CHR 0xFE])) c of
        None \<Rightarrow> c
      | Some d \<Rightarrow> d)"

definition toLowerCase :: "string \<Rightarrow> string" where
  "toLowerCase s = map lower_char s"

fun js_includes :: "string \<Rightarrow> string \<Rightarrow> bool" where
  "js_includes [] sub = (sub = [])"
| "js_includes (c # s) sub = (prefix sub (c # s) \<or> js_includes s sub)"

fun nat_digits :: "nat \<Rightarrow> string" where
  "nat_digits n =
     (if n < 10 then [''0123456789'' ! n]
      else nat_digits (n div 10) @ [''0123456789'' ! (n mod 10)])"

declare nat_digits.simps [simp del]

definition String_of_number :: "int \<Rightarrow> string" where
  \<comment> \<open>\<^verbatim>\<open>String(n)\<close> for an integral number\<close>
  "String_of_number i = (if i < 0 then CHR ''-'' # nat_digits (nat (- i)) else nat_digits (nat i))"

subsection \<open>\<^verbatim>\<open>apiKeys.ts\<close>\<close>

text \<open>
  \<^verbatim>\<open>hashApiKey\<close> is the hexadecimal SHA-256 digest of Node's \<^verbatim>\<open>crypto\<close>; the
  model takes it as the parameter \<open>hashApiKey\<close>. \<^verbatim>\<open>timingSafeEqual\<close>, also Node's,
  compares two buffers of one length byte by byte.
\<close>

definition keyFingerprint :: "(string \<Rightarrow> string) \<Rightarrow> string \<Rightarrow> string" where
  "keyFingerprint hashApiKey key = take 12 (hashApiKey key)"

definition timingSafeEqual :: "string \<Rightarrow> string \<Rightarrow> bool" where
  "timingSafeEqual a b = (a = b)"

definition isApiKeyAllowed :: "string \<Rightarrow> string list \<Rightarrow> bool" where
  "isApiKeyAllowed candidate allowedKeys =
     list_ex (\<lambda>key. if length key \<noteq> length candidate then False
                     else timingSafeEqual candidate key) allowedKeys"

subsection \<open>\<^verbatim>\<open>authorize.ts\<close>\<close>

datatype key_source = Db | Env

record ApiKeyContext =
  keyId :: string
  keyName :: "string option"
  ctx_tier :: string
  fingerprint :: string
  source :: key_source
  dailyQuota :: "int option"
  dailyCount :: "int option"
  minuteQuota :: "int option"
  minuteCount :: "int option"
  dailyRemaining :: "int option"
  minuteRemaining :: "int option"

record ApiAuthError =
  httpStatus :: nat
  jsonRpcCode :: int
  message :: string
  retryAfterSec :: "nat option"

datatype AuthResult = Ok ApiKeyContext | Rejected ApiAuthError

text \<open>
  What \<^verbatim>\<open>await supabase.rpc("consume_mcp_api_request", ...)\<close> resolves to: an error
  with its optional message, or the data, which is an array of rows or something else
  (\<open>None\<close>).
\<close>

datatype rpc_response = RpcError "string option" | RpcData "ConsumeRpcRow list option"

definition remaining :: "int option \<Rightarrow> int option \<Rightarrow> int option" where
  "remaining quota count =
     (case quota of
        None \<Rightarrow> None
      | Some q \<Rightarrow> (case count of None \<Rightarrow> None | Some c \<Rightarrow> Some (max 0 (q - c))))"

definition normalizeTier :: "string option \<Rightarrow> string" where
  "normalizeTier v =
     (let raw = toLowerCase (trim (case v of None \<Rightarrow> [] | Some t \<Rightarrow> t))
      in if raw = [] then ''free'' else raw)"

definition invalid_key_error :: ApiAuthError where
  "invalid_key_error =
     \<lparr>httpStatus = 403, jsonRpcCode = - 32003, message = ''Invalid API key.'',
      retryAfterSec = None\<rparr>"

definition mapRpcRejection :: "string \<Rightarrow> ApiAuthError" where
  "mapRpcRejection why =
     (if why = ''invalid_key'' then invalid_key_error
      else if why = ''revoked_key'' then invalid_key_error
      else if why = ''minute_limit_exceeded'' then
        \<lparr>httpStatus = 429, jsonRpcCode = - 32029,
         message = ''Per-minute rate limit exceeded.'', retryAfterSec = Some 60\<rparr>
      else if why = ''daily_limit_exceeded'' then
        \<lparr>httpStatus = 429, jsonRpcCode = - 32029,
         message = ''Daily API quota exceeded.'', retryAfterSec = Some 3600\<rparr>
      else invalid_key_error)"

definition isRpcMissing :: "string \<Rightarrow> bool" where
  "isRpcMissing errorMessage =
     (js_includes errorMessage ''Could not find the function'' \<or>
      js_includes errorMessage ''does not exist'' \<or>
      js_includes errorMessage ''function public.consume_mcp_api_request'')"

definition buildEnvContext :: "(string \<Rightarrow> string) \<Rightarrow> string \<Rightarrow> ApiKeyContext" where
  "buildEnvContext hashApiKey apiKey =
     \<lparr>keyId = ''env'', keyName = Some ''env-fallback'', ctx_tier = ''free'',
      fingerprint = keyFingerprint hashApiKey apiKey, source = Env,
      dailyQuota = None, dailyCount = None, minuteQuota = None, minuteCount = None,
      dailyRemaining = None, minuteRemaining = None\<rparr>"

definition backend_unavailable_error :: ApiAuthError where
  "backend_unavailable_error =
     \<lparr>httpStatus = 500, jsonRpcCode = - 32603,
      message = ''API key validation backend is unavailable. Run DB migration for consume_mcp_api_request().'',
      retryAfterSec = None\<rparr>"

definition env_fallback :: "(string \<Rightarrow> string) \<Rightarrow> string \<Rightarrow> bool \<Rightarrow> string list \<Rightarrow> AuthResult" where
  \<comment> \<open>the tail of \<^verbatim>\<open>authorizeApiKey\<close>, reached when the store is skipped or not provisioned\<close>
  "env_fallback hashApiKey apiKey allowEnvFallback envKeys =
     (if allowEnvFallback \<and> isApiKeyAllowed apiKey envKeys
      then Ok (buildEnvContext hashApiKey apiKey)
      else Rejected invalid_key_error)"

definition authorizeApiKey ::
  "(string \<Rightarrow> string) \<Rightarrow> rpc_response \<Rightarrow> string \<Rightarrow> bool \<Rightarrow> bool \<Rightarrow> string list \<Rightarrow> AuthResult" where
  "authorizeApiKey hashApiKey rpc apiKey useDbKeys allowEnvFallback envKeys =
     (if useDbKeys then
        (case rpc of
           RpcData data \<Rightarrow>
             (case (case data of None \<Rightarrow> None | Some [] \<Rightarrow> None | Some (r # _) \<Rightarrow> Some r) of
                None \<Rightarrow> Rejected invalid_key_error
              | Some row \<Rightarrow>
                  if \<not> allowed row then Rejected (mapRpcRejection (reason row))
                  else
                    Ok \<lparr>keyId = (case api_key_id row of
                                   None \<Rightarrow> ''unknown''
                                 | Some i \<Rightarrow> if i = [] then ''unknown'' else i),
                        keyName = row_key_name row,
                        ctx_tier = normalizeTier (row_tier row),
                        fingerprint = keyFingerprint hashApiKey apiKey,
                        source = Db,
                        dailyQuota = row_daily_quota row,
                        dailyCount = daily_count row,
                        minuteQuota = row_per_minute_quota row,
                        minuteCount = minute_count row,
                        dailyRemaining = remaining (row_daily_quota row) (daily_count row),
                        minuteRemaining =
                          remaining (row_per_minute_quota row) (minute_count row)\<rparr>)
         | RpcError msg \<Rightarrow>
             let errorMessage = (case msg of None \<Rightarrow> [] | Some m \<Rightarrow> m)
             in if \<not> allowEnvFallback \<or> \<not> isRpcMissing errorMessage
                then Rejected backend_unavailable_error
                else env_fallback hashApiKey apiKey allowEnvFallback envKeys)
      else env_fallback hashApiKey apiKey allowEnvFallback envKeys)"

section \<open>The transport: \<^verbatim>\<open>http.ts\<close>\<close>

record Config =
  mcpHttpRequireApiKey :: bool
  mcpHttpUseDbKeys :: bool
  mcpHttpAllowEnvKeyFallback :: bool
  mcpHttpApiKeys :: "string list"

text \<open>The fields the middleware adds to the request.\<close>

record RequestWithAuth =
  req_apiKey :: "string option"
  req_apiKeyFingerprint :: "string option"
  req_apiKeyId :: "string option"
  req_apiKeyTier :: "string option"
  req_apiKeySource :: "key_source option"

text \<open>
  A session's context; its server and transport are handles of the SDK and are not
  part of the model.
\<close>

record SessionContext =
  apiKeyFingerprint :: string
  apiKeyId :: string
  apiKeyTier :: string
  createdAt :: int

datatype header_raw = Absent | Single string | Multiple "string list"

definition getSessionId :: "header_raw \<Rightarrow> string option" where
  "getSessionId raw =
     (case raw of
        Single v \<Rightarrow> if 0 < length (trim v) then Some (trim v) else None
      | Multiple vs \<Rightarrow>
          (case find (\<lambda>v. 0 < length (trim v)) vs of
             None \<Rightarrow> None
           | Some first \<Rightarrow> Some (trim first))
      | Absent \<Rightarrow> None)"

definition no_auth :: RequestWithAuth where
  "no_auth =
     \<lparr>req_apiKey = None, req_apiKeyFingerprint = None, req_apiKeyId = None,
      req_apiKeyTier = None, req_apiKeySource = None\<rparr>"

definition source_name :: "key_source \<Rightarrow> string" where
  "source_name src = (case src of Db \<Rightarrow> ''db'' | Env \<Rightarrow> ''env'')"

text \<open>
  The \<^verbatim>\<open>/mcp\<close> middleware either answers with a JSON-RPC error (the headers set so
  far, the status, the code and the message) or calls \<^verbatim>\<open>next()\<close> with the headers
  it set on the response and the fields it set on the request. \<open>apiKey\<close> is what
  \<^verbatim>\<open>extractApiKeyFromHeaders\<close> returned.
\<close>

datatype middleware_outcome =
  Responded "(string \<times> string) list" nat int string
  | Next "(string \<times> string) list" RequestWithAuth

definition rate_limit_headers :: "ApiKeyContext \<Rightarrow> (string \<times> string) list" where
  "rate_limit_headers c =
     (case dailyQuota c of None \<Rightarrow> []
      | Some q \<Rightarrow> [(''X-RateLimit-Daily-Limit'', String_of_number q)]) @
     (case dailyRemaining c of None \<Rightarrow> []
      | Some r \<Rightarrow> [(''X-RateLimit-Daily-Remaining'', String_of_number r)]) @
     (case minuteQuota c of None \<Rightarrow> []
      | Some q \<Rightarrow> [(''X-RateLimit-Minute-Limit'', String_of_number q)]) @
     (case minuteRemaining c of None \<Rightarrow> []
      | Some r \<Rightarrow> [(''X-RateLimit-Minute-Remaining'', String_of_number r)]) @
     [(''X-API-Key-Tier'', ctx_tier c), (''X-API-Key-Source'', source_name (source c))]"

definition mcp_auth_middleware ::
  "Config \<Rightarrow> (string \<Rightarrow> string) \<Rightarrow> rpc_response \<Rightarrow> string option \<Rightarrow> middleware_outcome" where
  "mcp_auth_middleware config hashApiKey rpc apiKey =
     (if \<not> mcpHttpRequireApiKey config then Next [] no_auth
      else
        (case (case apiKey of None \<Rightarrow> None | Some k \<Rightarrow> if k = [] then None else Some k) of
           None \<Rightarrow> Responded [(''WWW-Authenticate'', ''Bearer'')] 401 (- 32001) ''API key required.''
         | Some k \<Rightarrow>
             (case authorizeApiKey hashApiKey rpc k (mcpHttpUseDbKeys config)
                     (mcpHttpAllowEnvKeyFallback config) (mcpHttpApiKeys config) of
                Rejected e \<Rightarrow>
                  Responded
                    (case retryAfterSec e of
                       None \<Rightarrow> []
                     | Some n \<Rightarrow> if n = 0 then [] else [(''Retry-After'', String_of_number (int n))])
                    (httpStatus e) (jsonRpcCode e) (message e)
              | Ok c \<Rightarrow>
                  Next (rate_limit_headers c)
                    \<lparr>req_apiKey = Some k, req_apiKeyFingerprint = Some (fingerprint c),
                     req_apiKeyId = Some (keyId c), req_apiKeyTier = Some (ctx_tier c),
                     req_apiKeySource = Some (source c)\<rparr>)))"

text \<open>
  What the SDK's transport does with a request is not the repository's code; the
  handlers see it through the callbacks they registered and through an exception.
  A \<open>transport_run\<close> is one run of \<^verbatim>\<open>server.connect\<close> (for a new transport) and
  \<^verbatim>\<open>transport.handleRequest\<close>: the callbacks it fired, in order, whether it raised,
  and whether the response headers were out by then.
\<close>

datatype transport_event = SessionInitialized string | SessionClosed string

record transport_run =
  events :: "transport_event list"
  threw :: bool
  headersSent :: bool

text \<open>
  \<open>Forwarded sid\<close> says that the request was handed to \<^verbatim>\<open>handleRequest\<close> of the
  transport of session \<open>sid\<close>, \<open>NewTransport\<close> that it was handed to a transport
  created for it. The reply then is the transport's own, or the handler's
  \<^verbatim>\<open>catch\<close>: status 500, code -32603, \<^verbatim>\<open>Internal server error.\<close>
\<close>

datatype transport_reply = TransportReplied | InternalServerError

datatype handler_outcome =
  JsonRpcError nat int string
  | Forwarded string transport_reply
  | NewTransport transport_reply

datatype json_body = NoBody | NotAnObject | Object "string option" "string option"

definition isInitializeRequestBody :: "json_body \<Rightarrow> bool" where
  \<comment> \<open>\<open>Object j m\<close>: the members \<^verbatim>\<open>jsonrpc\<close> and \<^verbatim>\<open>method\<close>, where they are strings\<close>
  "isInitializeRequestBody body =
     (case body of
        Object j m \<Rightarrow> j = Some ''2.0'' \<and> m = Some ''initialize''
      | _ \<Rightarrow> False)"

definition truthy :: "string option \<Rightarrow> bool" where
  "truthy v = (case v of None \<Rightarrow> False | Some x \<Rightarrow> x \<noteq> [])"

definition or_default :: "string option \<Rightarrow> string \<Rightarrow> string" where
  \<comment> \<open>\<^verbatim>\<open>v || d\<close>\<close>
  "or_default v d = (case v of None \<Rightarrow> d | Some x \<Rightarrow> if x = [] then d else x)"

definition cleanupSession ::
  "(string \<rightharpoonup> SessionContext) \<Rightarrow> string \<Rightarrow> (string \<rightharpoonup> SessionContext)" where
  "cleanupSession sessions sessionId =
     (case sessions sessionId of
        None \<Rightarrow> sessions
      | Some context \<Rightarrow> sessions(sessionId := None))"

text \<open>
  The callbacks of one transport: \<^verbatim>\<open>onsessioninitialized\<close> stores \<open>stored\<close>, the
  context built from the request that created the transport, with
  \<^verbatim>\<open>createdAt = Date.now()\<close>; \<^verbatim>\<open>onsessionclosed\<close> calls \<open>cleanupSession\<close>.
\<close>

fun run_callbacks ::
  "SessionContext \<Rightarrow> int \<Rightarrow> transport_event list \<Rightarrow> (string \<rightharpoonup> SessionContext) \<Rightarrow>
   (string \<rightharpoonup> SessionContext)" where
  "run_callbacks stored now [] sessions = sessions"
| "run_callbacks stored now (SessionInitialized newSessionId # es) sessions =
     run_callbacks stored now es (sessions(newSessionId \<mapsto> stored\<lparr>createdAt := now\<rparr>))"
| "run_callbacks stored now (SessionClosed closedSessionId # es) sessions =
     run_callbacks stored now es (cleanupSession sessions closedSessionId)"

definition reply_of :: "transport_run \<Rightarrow> transport_reply" where
  \<comment> \<open>the \<^verbatim>\<open>catch\<close>: \<^verbatim>\<open>sendJsonRpcError\<close> answers unless the headers are out\<close>
  "reply_of run =
     (if threw run then (if headersSent run then TransportReplied else InternalServerError)
      else TransportReplied)"

text \<open>The three handlers of \<^verbatim>\<open>/mcp\<close>, each with its own copy of the session check.\<close>

definition post_mcp ::
  "Config \<Rightarrow> (string \<rightharpoonup> SessionContext) \<Rightarrow> int \<Rightarrow> transport_run \<Rightarrow> header_raw \<Rightarrow> json_body \<Rightarrow>
   RequestWithAuth \<Rightarrow> handler_outcome \<times> (string \<rightharpoonup> SessionContext)" where
  "post_mcp config sessions now run sessionHeader body req =
     (case getSessionId sessionHeader of
        Some sessionId \<Rightarrow>
          (case sessions sessionId of
             None \<Rightarrow> (JsonRpcError 404 (- 32004) ''Unknown session ID.'', sessions)
           | Some context \<Rightarrow>
               if mcpHttpRequireApiKey config \<and> truthy (req_apiKeyFingerprint req) \<and>
                  Some (apiKeyFingerprint context) \<noteq> req_apiKeyFingerprint req
               then (JsonRpcError 403 (- 32003) ''Session not valid for this API key.'', sessions)
               else (Forwarded sessionId (reply_of run),
                     run_callbacks context now (events run) sessions))
      | None \<Rightarrow>
          if \<not> isInitializeRequestBody body then
            (JsonRpcError 400 (- 32000)
               ''Initialize request required when no session ID is present.'', sessions)
          else
            (NewTransport (reply_of run),
             run_callbacks
               \<lparr>apiKeyFingerprint = or_default (req_apiKeyFingerprint req) ''anonymous'',
                apiKeyId = or_default (req_apiKeyId req) ''anonymous'',
                apiKeyTier = or_default (req_apiKeyTier req) ''free'',
                createdAt = now\<rparr>
               now (events run) sessions))"

definition get_mcp ::
  "Config \<Rightarrow> (string \<rightharpoonup> SessionContext) \<Rightarrow> int \<Rightarrow> transport_run \<Rightarrow> header_raw \<Rightarrow>
   RequestWithAuth \<Rightarrow> handler_outcome \<times> (string \<rightharpoonup> SessionContext)" where
  "get_mcp config sessions now run sessionHeader req =
     (case getSessionId sessionHeader of
        None \<Rightarrow> (JsonRpcError 400 (- 32000) ''Session ID header is required.'', sessions)
      | Some sessionId \<Rightarrow>
          (case sessions sessionId of
             None \<Rightarrow> (JsonRpcError 404 (- 32004) ''Unknown session ID.'', sessions)
           | Some context \<Rightarrow>
               if mcpHttpRequireApiKey config \<and> truthy (req_apiKeyFingerprint req) \<and>
                  Some (apiKeyFingerprint context) \<noteq> req_apiKeyFingerprint req
               then (JsonRpcError 403 (- 32003) ''Session not valid for this API key.'', sessions)
               else (Forwarded sessionId (reply_of run),
                     run_callbacks context now (events run) sessions)))"

definition delete_mcp ::
  "Config \<Rightarrow> (string \<rightharpoonup> SessionContext) \<Rightarrow> int \<Rightarrow> transport_run \<Rightarrow> header_raw \<Rightarrow>
   RequestWithAuth \<Rightarrow> handler_outcome \<times> (string \<rightharpoonup> SessionContext)" where
  "delete_mcp config sessions now run sessionHeader req =
     (case getSessionId sessionHeader of
        None \<Rightarrow> (JsonRpcError 400 (- 32000) ''Session ID header is required.'', sessions)
      | Some sessionId \<Rightarrow>
          (case sessions sessionId of
             None \<Rightarrow> (JsonRpcError 404 (- 32004) ''Unknown session ID.'', sessions)
           | Some context \<Rightarrow>
               if mcpHttpRequireApiKey config \<and> truthy (req_apiKeyFingerprint req) \<and>
                  Some (apiKeyFingerprint context) \<noteq> req_apiKeyFingerprint req
               then (JsonRpcError 403 (- 32003) ''Session not valid for this API key.'', sessions)
               else (Forwarded sessionId (reply_of run),
                     run_callbacks context now (events run) sessions)))"

text \<open>
  One request to \<^verbatim>\<open>/mcp\<close>: the middleware, then the handler of the request's
  method.
\<close>

datatype http_method = POST | GET | DELETE

datatype http_result =
  Denied "(string \<times> string) list" nat int string
  | Handled "(string \<times> string) list" handler_outcome

definition handle_mcp ::
  "http_method \<Rightarrow> Config \<Rightarrow> (string \<Rightarrow> string) \<Rightarrow> rpc_response \<Rightarrow> (string \<rightharpoonup> SessionContext) \<Rightarrow>
   int \<Rightarrow> transport_run \<Rightarrow> string option \<Rightarrow> header_raw \<Rightarrow> json_body \<Rightarrow>
   http_result \<times> (string \<rightharpoonup> SessionContext)" where
  "handle_mcp meth config hashApiKey rpc sessions now run apiKey sessionHeader body =
     (case mcp_auth_middleware config hashApiKey rpc apiKey of
        Responded hs st code msg \<Rightarrow> (Denied hs st code msg, sessions)
      | Next hs req \<Rightarrow>
          (case (case meth of
                   POST \<Rightarrow> post_mcp config sessions now run sessionHeader body req
                 | GET \<Rightarrow> get_mcp config sessions now run sessionHeader req
                 | DELETE \<Rightarrow> delete_mcp config sessions now run sessionHeader req) of
             (out, sessions') \<Rightarrow> (Handled hs out, sessions')))"

section \<open>Predicates and example states for the statements\<close>

text \<open>
  The count a window holds (0 where it has no row yet), and the condition under which
  the upsert of \<open>charge_window\<close> goes through: there is no row, or the row is below
  the quota (no quota: always) and the incremented count still fits an
  \<^verbatim>\<open>integer\<close>. Lemma \<open>charge_window_cases\<close> below shows that this is exactly when
  the statement returns a row.
\<close>

definition count_of :: "usage_row option \<Rightarrow> int" where
  "count_of row = (case row of None \<Rightarrow> 0 | Some r \<Rightarrow> request_count r)"

definition window_admits :: "usage_row option \<Rightarrow> int option \<Rightarrow> bool" where
  "window_admits row quota =
     (case row of
        None \<Rightarrow> True
      | Some r \<Rightarrow>
          (case quota of None \<Rightarrow> True | Some q \<Rightarrow> request_count r < q) \<and>
          request_count r + 1 \<le> int4_max)"

definition example_key :: "string \<Rightarrow> int option \<Rightarrow> int option \<Rightarrow> key_row" where
  "example_key st dq mq =
     \<lparr>key_id = ''k1'', key_name = Some ''demo'', key_prefix = ''nlt_abcd'', key_hash = ''h1'',
      tier = ''free'', status = st, daily_quota = dq, per_minute_quota = mq,
      metadata = ''{}'', created_at = 0, updated_at = 0, last_used_at = None,
      user_id = Some ''u1''\<rparr>"

definition example_db ::
  "key_row \<Rightarrow> (uuid \<times> date \<rightharpoonup> usage_row) \<Rightarrow> (uuid \<times> timestamptz \<rightharpoonup> usage_row) \<Rightarrow> db_state" where
  "example_db k daily minute =
     \<lparr>mcp_api_keys = [k], mcp_api_usage_daily = daily, mcp_api_usage_minute = minute\<rparr>"

text \<open>
  A key with a daily quota of 2 that is used up on day 20000 and a quota of 5 per
  minute, of which 3 are used in the minute starting at 1728000000000000.
\<close>

definition daily_full_db :: db_state where
  "daily_full_db =
     example_db (example_key ''active'' (Some 2) (Some 5))
       (Map.empty((''k1'', 20000) \<mapsto> \<lparr>request_count = 2, usage_updated_at = 1\<rparr>))
       (Map.empty((''k1'', 1728000000000000) \<mapsto> \<lparr>request_count = 3, usage_updated_at = 1\<rparr>))"

text \<open>
  Both windows of the key exhausted: 2 of 2 on the day, 5 of 5 in the minute.
\<close>

definition both_full_db :: db_state where
  "both_full_db =
     example_db (example_key ''active'' (Some 2) (Some 5))
       (Map.empty((''k1'', 20000) \<mapsto> \<lparr>request_count = 2, usage_updated_at = 1\<rparr>))
       (Map.empty((''k1'', 1728000000000000) \<mapsto> \<lparr>request_count = 5, usage_updated_at = 1\<rparr>))"

text \<open>A key with no usage rows yet, and the same key one and two requests into its day.\<close>

definition fresh_db :: "int option \<Rightarrow> int option \<Rightarrow> db_state" where
  "fresh_db dq mq = example_db (example_key ''active'' dq mq) Map.empty Map.empty"

definition daily_one_db :: db_state where
  "daily_one_db =
     example_db (example_key ''active'' (Some 2) None)
       (Map.empty((''k1'', 20000) \<mapsto> \<lparr>request_count = 1, usage_updated_at = 1\<rparr>))
       Map.empty"

definition daily_two_db :: db_state where
  "daily_two_db =
     example_db (example_key ''active'' (Some 2) None)
       (Map.empty((''k1'', 20000) \<mapsto> \<lparr>request_count = 2, usage_updated_at = 1\<rparr>))
       Map.empty"

text \<open>
  Sequential calls for one key hash, each with the database's \<^verbatim>\<open>now()\<close> and its
  \<^verbatim>\<open>p_now\<close>: every call runs on the state the call before it committed; a call
  that raised leaves the state as it was.
\<close>

fun consume_calls ::
  "db_state \<Rightarrow> string \<Rightarrow> (timestamptz \<times> timestamptz) list \<Rightarrow>
   (db_error + ConsumeRpcRow) list \<times> db_state" where
  "consume_calls s h [] = ([], s)"
| "consume_calls s h ((db_now, p_now) # ts) =
     (case consume_mcp_api_request db_now s h p_now of
        Inl e \<Rightarrow> (case consume_calls s h ts of (rs, s') \<Rightarrow> (Inl e # rs, s'))
      | Inr (row, s1) \<Rightarrow> (case consume_calls s1 h ts of (rs, s') \<Rightarrow> (Inr row # rs, s')))"

definition outcome ::
  "db_error + ConsumeRpcRow \<Rightarrow> (bool \<times> string \<times> int option \<times> int option) option" where
  "outcome r =
     (case r of
        Inl e \<Rightarrow> None
      | Inr row \<Rightarrow> Some (allowed row, reason row, daily_count row, minute_count row))"

text \<open>
  \<open>n\<close> calls of the guarded upsert on one window; the first component counts the calls
  that were admitted (a row came back).
\<close>

fun charge_repeatedly ::
  "('k \<rightharpoonup> usage_row) \<Rightarrow> 'k \<Rightarrow> int \<Rightarrow> timestamptz \<Rightarrow> nat \<Rightarrow> nat \<times> ('k \<rightharpoonup> usage_row)" where
  "charge_repeatedly tbl k quota p_now 0 = (0, tbl)"
| "charge_repeatedly tbl k quota p_now (Suc n) =
     (case upsert_increment_below tbl k quota p_now of
        Inl e \<Rightarrow> charge_repeatedly tbl k quota p_now n
      | Inr (None, tbl') \<Rightarrow> charge_repeatedly tbl' k quota p_now n
      | Inr (Some c, tbl') \<Rightarrow>
          (case charge_repeatedly tbl' k quota p_now n of (a, tbl'') \<Rightarrow> (Suc a, tbl'')))"

text \<open>Stand-ins for the transport's environment in the concrete instances.\<close>

definition example_hash :: "string \<Rightarrow> string" where
  "example_hash key = ''sha256:'' @ key"

definition example_config :: Config where
  "example_config =
     \<lparr>mcpHttpRequireApiKey = True, mcpHttpUseDbKeys = True,
      mcpHttpAllowEnvKeyFallback = False, mcpHttpApiKeys = []\<rparr>"

definition ok_row :: "int option \<Rightarrow> int option \<Rightarrow> int option \<Rightarrow> int option \<Rightarrow> ConsumeRpcRow" where
  "ok_row dq dc mq mc =
     \<lparr>allowed = True, reason = ''ok'', api_key_id = Some ''k1'', row_key_name = Some ''demo'',
      row_tier = Some ''free'', row_daily_quota = dq, daily_count = dc,
      row_per_minute_quota = mq, minute_count = mc\<rparr>"

definition alice_context :: SessionContext where
  "alice_context =
     \<lparr>apiKeyFingerprint = ''sha256:alice'', apiKeyId = ''k1'', apiKeyTier = ''free'',
      createdAt = 0\<rparr>"

definition alice_session :: "string \<rightharpoonup> SessionContext" where
  "alice_session = Map.empty(''s1'' \<mapsto> alice_context)"

definition db_context :: "string \<Rightarrow> ApiKeyContext" where
  "db_context fp =
     \<lparr>keyId = ''k1'', keyName = Some ''demo'', ctx_tier = ''free'', fingerprint = fp,
      source = Db, dailyQuota = None, dailyCount = Some 1, minuteQuota = None,
      minuteCount = Some 1, dailyRemaining = None, minuteRemaining = None\<rparr>"

definition quiet_run :: transport_run where
  "quiet_run = \<lparr>events = [], threw = False, headersSent = False\<rparr>"

definition closing_run :: transport_run where
  "closing_run = \<lparr>events = [SessionClosed ''s1''], threw = False, headersSent = False\<rparr>"

section \<open>The conditional upsert, characterised\<close>

lemma charge_window_admits:
  "window_admits (tbl k) quota \<Longrightarrow>
   charge_window tbl k quota p_now =
     Inr (Some (count_of (tbl k) + 1),
          tbl(k \<mapsto> \<lparr>request_count = count_of (tbl k) + 1, usage_updated_at = p_now\<rparr>))"
  by (auto simp: window_admits_def charge_window_def upsert_increment_def
        upsert_increment_below_def count_of_def split: option.splits)

lemma charge_window_denies:
  "tbl k = Some r \<Longrightarrow> \<not> request_count r < q \<Longrightarrow>
   charge_window tbl k (Some q) p_now = Inr (None, tbl)"
  by (simp add: charge_window_def upsert_increment_below_def)

lemma charge_window_cases:
  "charge_window tbl k quota p_now = Inr (res, tbl') \<Longrightarrow>
   (res = None \<and> tbl' = tbl \<and> (\<exists>r q. tbl k = Some r \<and> quota = Some q \<and> \<not> request_count r < q)) \<or>
   (res = Some (count_of (tbl k) + 1) \<and> window_admits (tbl k) quota \<and>
    tbl' = tbl(k \<mapsto> \<lparr>request_count = count_of (tbl k) + 1, usage_updated_at = p_now\<rparr>))"
  by (auto simp: window_admits_def charge_window_def upsert_increment_def count_of_def
        upsert_increment_below_def split: option.splits if_splits)

lemma charge_window_bound:
  "charge_window tbl k (Some Q) p_now = Inr (res, tbl') \<Longrightarrow> 1 \<le> Q \<Longrightarrow>
   count_of (tbl k') \<le> Q \<Longrightarrow> count_of (tbl' k') \<le> Q"
  by (auto simp: charge_window_def upsert_increment_below_def count_of_def
      split: option.splits if_splits)

lemma nat_diff_Suc: "c < Q \<Longrightarrow> nat (Q - c) = Suc (nat (Q - (c + 1)))" for c Q :: int
  by simp

lemma charge_repeatedly_from_row:
  "tbl k = Some r \<Longrightarrow> request_count r \<le> Q \<Longrightarrow> Q \<le> int4_max \<Longrightarrow>
   fst (charge_repeatedly tbl k Q p_now n) = min n (nat (Q - request_count r)) \<and>
   count_of (snd (charge_repeatedly tbl k Q p_now n) k) =
     request_count r + int (min n (nat (Q - request_count r)))"
proof (induction n arbitrary: tbl r)
  case 0
  then show ?case by (simp add: count_of_def)
next
  case (Suc n)
  show ?case
  proof (cases "request_count r < Q")
    case True
    let ?r' = "\<lparr>request_count = request_count r + 1, usage_updated_at = p_now\<rparr>"
    have step: "upsert_increment_below tbl k Q p_now =
        Inr (Some (request_count r + 1), tbl(k \<mapsto> ?r'))"
      using Suc.prems True by (simp add: upsert_increment_below_def)
    obtain a t where rest: "charge_repeatedly (tbl(k \<mapsto> ?r')) k Q p_now n = (a, t)"
      by (cases "charge_repeatedly (tbl(k \<mapsto> ?r')) k Q p_now n")
    have "fst (charge_repeatedly (tbl(k \<mapsto> ?r')) k Q p_now n) =
                min n (nat (Q - request_count ?r')) \<and>
              count_of (snd (charge_repeatedly (tbl(k \<mapsto> ?r')) k Q p_now n) k) =
                request_count ?r' + int (min n (nat (Q - request_count ?r')))"
      using Suc.prems True by (intro Suc.IH) simp_all
    then have ih: "a = min n (nat (Q - (request_count r + 1)))"
      "count_of (t k) = request_count r + 1 + int (min n (nat (Q - (request_count r + 1))))"
      by (simp_all add: rest)
    have "charge_repeatedly tbl k Q p_now (Suc n) = (Suc a, t)"
      by (simp add: step rest)
    then show ?thesis
      using ih by (simp add: nat_diff_Suc[OF True])
  next
    case False
    have step: "upsert_increment_below tbl k Q p_now = Inr (None, tbl)"
      using Suc.prems False by (simp add: upsert_increment_below_def)
    have "fst (charge_repeatedly tbl k Q p_now n) = min n (nat (Q - request_count r)) \<and>
          count_of (snd (charge_repeatedly tbl k Q p_now n) k) =
            request_count r + int (min n (nat (Q - request_count r)))"
      using Suc.prems by (intro Suc.IH) simp_all
    then show ?thesis
      using False by (simp add: step)
  qed
qed

section \<open>Facts about \<^verbatim>\<open>consume_mcp_api_request\<close>\<close>

text \<open>
  Each usage table a call returns is the one it was given or the result of the one
  upsert on the key's current window.
\<close>

lemma consume_tables:
  assumes "find (\<lambda>k. key_hash k = p_key_hash) (mcp_api_keys s) = Some v_key"
    and "consume_mcp_api_request db_now s p_key_hash p_now = Inr (row, s')"
  shows "mcp_api_usage_minute s' = mcp_api_usage_minute s \<or>
         (\<exists>res. charge_window (mcp_api_usage_minute s) (key_id v_key, date_trunc_minute p_now)
                  (per_minute_quota v_key) p_now = Inr (res, mcp_api_usage_minute s'))"
    and "mcp_api_usage_daily s' = mcp_api_usage_daily s \<or>
         (\<exists>res. charge_window (mcp_api_usage_daily s) (key_id v_key, utc_date p_now)
                  (daily_quota v_key) p_now = Inr (res, mcp_api_usage_daily s'))"
  using assms
  by (auto simp: consume_mcp_api_request_def Let_def
      split: if_splits sum.splits prod.splits option.splits)

lemma consume_at_daily_full_db:
  "consume_mcp_api_request 9 daily_full_db ''h1'' 1728000000000007 =
     Inr (\<lparr>allowed = False, reason = ''daily_limit_exceeded'',
           api_key_id = Some ''k1'', row_key_name = Some ''demo'',
           row_tier = Some ''free'', row_daily_quota = Some 2,
           daily_count = Some 2, row_per_minute_quota = Some 5,
           minute_count = Some 4\<rparr>,
          daily_full_db\<lparr>mcp_api_usage_minute :=
            (mcp_api_usage_minute daily_full_db)((''k1'', 1728000000000000) \<mapsto>
               \<lparr>request_count = 4, usage_updated_at = 1728000000000007\<rparr>)\<rparr>)"
  by (simp add: daily_full_db_def example_db_def example_key_def utc_date_def
      date_trunc_minute_def consume_mcp_api_request_def charge_window_def
      upsert_increment_below_def rejection_row_def int4_max_def)

lemma daily_quota_two_scenario:
  "map outcome (fst (consume_calls (fresh_db (Some 2) None) ''h1''
      [(1728000000000001, 1728000000000000), (1728000070000001, 1728000070000000),
       (1728000140000001, 1728000140000000)])) =
   [Some (True, ''ok'', Some 1, Some 1), Some (True, ''ok'', Some 2, Some 1),
    Some (False, ''daily_limit_exceeded'', Some 2, Some 1)]"
  by (simp add: fresh_db_def example_db_def example_key_def utc_date_def outcome_def
      date_trunc_minute_def consume_mcp_api_request_def charge_window_def
      upsert_increment_below_def upsert_increment_def rejection_row_def int4_max_def
      touch_last_used_def)

section \<open>Facts about \<^verbatim>\<open>revoke_user_api_key\<close>\<close>

lemma not_owned_active_revoke_row: "\<not> owned_active x u (revoke_row t x u k)"
  by (simp add: revoke_row_def owned_active_def)

lemma revoke_row_idle: "\<not> owned_active x u k \<Longrightarrow> revoke_row t x u k = k"
  by (simp add: revoke_row_def)

lemma revoke_row_keeps_revoked:
  "status k = ''revoked'' \<Longrightarrow> status (revoke_row t x u k) = ''revoked''"
  by (simp add: revoke_row_def)

lemma revoke_twice_rows:
  "map (revoke_row t2 x u \<circ> revoke_row t1 x u) ks = map (revoke_row t1 x u) ks"
  by (simp add: revoke_row_idle not_owned_active_revoke_row)

lemma revoke_leaves_none: "\<not> list_ex (owned_active x u) (map (revoke_row t x u) ks)"
  by (simp add: list_ex_iff not_owned_active_revoke_row)

lemma revoke_never_reactivates:
  assumes "revoke_user_api_key t a s x = Inr (b, s')"
  shows "length (mcp_api_keys s') = length (mcp_api_keys s) \<and>
         (\<forall>i < length (mcp_api_keys s).
            status (mcp_api_keys s ! i) = ''revoked'' \<longrightarrow> status (mcp_api_keys s' ! i) = ''revoked'')"
proof (cases a)
  case None
  with assms show ?thesis by (simp add: revoke_user_api_key_def)
next
  case (Some u)
  with assms have "mcp_api_keys s' = map (revoke_row t x u) (mcp_api_keys s)"
    by (auto simp: revoke_user_api_key_def)
  then show ?thesis by (simp add: revoke_row_keeps_revoked)
qed

lemma revoke_already_revoked:
  assumes "\<forall>k \<in> set (mcp_api_keys s). key_id k = x \<longrightarrow> status k = ''revoked''"
  shows "revoke_user_api_key t (Some u) s x = Inr (False, s)"
proof -
  have none: "\<forall>k \<in> set (mcp_api_keys s). \<not> owned_active x u k"
    using assms by (auto simp: owned_active_def)
  then have "map (revoke_row t x u) (mcp_api_keys s) = mcp_api_keys s"
    by (simp add: map_idI revoke_row_idle)
  with none show ?thesis
    by (simp add: revoke_user_api_key_def list_ex_iff)
qed

section \<open>Facts about the gateway and the middleware\<close>

lemma authorize_backend_error:
  "authorizeApiKey hashApiKey (RpcError msg) apiKey True allowEnvFallback envKeys =
     (if allowEnvFallback \<and> isRpcMissing (case msg of None \<Rightarrow> [] | Some m \<Rightarrow> m)
      then env_fallback hashApiKey apiKey allowEnvFallback envKeys
      else Rejected backend_unavailable_error)"
  by (simp add: authorizeApiKey_def Let_def)

lemma generic_fault_not_missing: "\<not> isRpcMissing ''connection refused''"
  by (simp add: isRpcMissing_def)

lemma missing_function_is_missing:
  "isRpcMissing ''Could not find the function public.consume_mcp_api_request(p_key_hash, p_now) in the schema cache''"
  by (simp add: isRpcMissing_def)

lemma authorize_ok_context:
  assumes "authorizeApiKey hashApiKey rpc k useDb fb envKeys = Ok c"
  shows "fingerprint c = keyFingerprint hashApiKey k"
    and "dailyRemaining c = remaining (dailyQuota c) (dailyCount c)"
    and "minuteRemaining c = remaining (minuteQuota c) (minuteCount c)"
  using assms
  by (auto simp: authorizeApiKey_def env_fallback_def buildEnvContext_def remaining_def Let_def
      split: if_splits rpc_response.splits option.splits list.splits)

lemma header_daily_limit:
  "map_of (rate_limit_headers c) ''X-RateLimit-Daily-Limit'' =
     map_option String_of_number (dailyQuota c)"
  by (simp add: rate_limit_headers_def split: option.splits)

lemma header_daily_remaining:
  "map_of (rate_limit_headers c) ''X-RateLimit-Daily-Remaining'' =
     map_option String_of_number (dailyRemaining c)"
  by (simp add: rate_limit_headers_def split: option.splits)

lemma header_minute_limit:
  "map_of (rate_limit_headers c) ''X-RateLimit-Minute-Limit'' =
     map_option String_of_number (minuteQuota c)"
  by (simp add: rate_limit_headers_def split: option.splits)

lemma header_minute_remaining:
  "map_of (rate_limit_headers c) ''X-RateLimit-Minute-Remaining'' =
     map_option String_of_number (minuteRemaining c)"
  by (simp add: rate_limit_headers_def split: option.splits)

lemma middleware_ok:
  assumes "mcpHttpRequireApiKey config" and "k \<noteq> []"
    and "authorizeApiKey hashApiKey rpc k (mcpHttpUseDbKeys config)
           (mcpHttpAllowEnvKeyFallback config) (mcpHttpApiKeys config) = Ok c"
  shows "mcp_auth_middleware config hashApiKey rpc (Some k) =
           Next (rate_limit_headers c)
             \<lparr>req_apiKey = Some k, req_apiKeyFingerprint = Some (keyFingerprint hashApiKey k),
              req_apiKeyId = Some (keyId c), req_apiKeyTier = Some (ctx_tier c),
              req_apiKeySource = Some (source c)\<rparr>"
  using assms authorize_ok_context(1)[OF assms(3)]
  by (simp add: mcp_auth_middleware_def)

lemma example_context_facts:
  "mcpHttpRequireApiKey example_config"
  "authorizeApiKey example_hash (RpcData (Some [ok_row None (Some 1) None (Some 1)])) ''alice''
     (mcpHttpUseDbKeys example_config) (mcpHttpAllowEnvKeyFallback example_config)
     (mcpHttpApiKeys example_config) = Ok (db_context ''sha256:alice'')"
  "authorizeApiKey example_hash (RpcData (Some [ok_row None (Some 1) None (Some 1)])) ''bobby''
     (mcpHttpUseDbKeys example_config) (mcpHttpAllowEnvKeyFallback example_config)
     (mcpHttpApiKeys example_config) = Ok (db_context ''sha256:bobby'')"
  by (simp_all add: example_config_def example_hash_def ok_row_def authorizeApiKey_def
      keyFingerprint_def remaining_def normalizeTier_def trim_def toLowerCase_def
      lower_char_def js_space_def db_context_def)

lemma session_header_s1: "getSessionId (Single (CHR 0xA0 # ''s1 '')) = Some ''s1''"
  by (simp add: getSessionId_def trim_def js_space_def)

lemma rate_limit_headers_db_context:
  "rate_limit_headers (db_context fp) =
     [(''X-API-Key-Tier'', ''free''), (''X-API-Key-Source'', ''db'')]"
  by (simp add: rate_limit_headers_def db_context_def source_name_def)

section \<open>Claims about \<^verbatim>\<open>consume_mcp_api_request\<close>\<close>

text \<open>
  Claim C5. For a credential whose status is not \<^verbatim>\<open>active\<close> the function returns
  the denial \<^verbatim>\<open>revoked_key\<close>: the identity and both quotas are those of the key's
  row, both counts are null, and the state it returns is the state it was given, so no
  row of either usage table is created or incremented.
\<close>

theorem revoked_key_denied_untouched:
  assumes "find (\<lambda>k. key_hash k = p_key_hash) (mcp_api_keys s) = Some v_key"
    and "status v_key \<noteq> ''active''"
  shows "consume_mcp_api_request db_now s p_key_hash p_now =
           Inr (\<lparr>allowed = False, reason = ''revoked_key'', api_key_id = Some (key_id v_key),
                 row_key_name = key_name v_key, row_tier = Some (tier v_key),
                 row_daily_quota = daily_quota v_key, daily_count = None,
                 row_per_minute_quota = per_minute_quota v_key, minute_count = None\<rparr>, s)"
  using assms by (simp add: consume_mcp_api_request_def rejection_row_def)

text \<open>A revoked credential with a daily quota of 100.\<close>

theorem revoked_key_denied_untouched_witness:
  "consume_mcp_api_request 9 (example_db (example_key ''revoked'' (Some 100) (Some 20)) Map.empty Map.empty) ''h1'' 7 =
     Inr (\<lparr>allowed = False, reason = ''revoked_key'', api_key_id = Some ''k1'',
           row_key_name = Some ''demo'', row_tier = Some ''free'',
           row_daily_quota = Some 100, daily_count = None,
           row_per_minute_quota = Some 20, minute_count = None\<rparr>,
          example_db (example_key ''revoked'' (Some 100) (Some 20)) Map.empty Map.empty)"
  using revoked_key_denied_untouched [of "''h1''" "example_db (example_key ''revoked'' (Some 100) (Some 20)) Map.empty Map.empty"
      "example_key ''revoked'' (Some 100) (Some 20)" 9 7]
  by (simp add: example_db_def example_key_def)

text \<open>
  Claim C3. For an active credential whose minute check admits (\<open>window_admits\<close> on
  the minute row) and whose daily check denies (the daily row exists and is not below
  the finite daily quota), the function returns the denial
  \<^verbatim>\<open>daily_limit_exceeded\<close> with the daily count as stored and the minute count
  after its increment; in the state it returns the minute row holds one more than
  before (1 where there was no row) and nothing else has changed: the minute charge is
  not reverted.
\<close>

theorem daily_denial_keeps_minute_charge:
  assumes "find (\<lambda>k. key_hash k = p_key_hash) (mcp_api_keys s) = Some v_key"
    and "status v_key = ''active''"
    and "mcp_api_usage_minute s (key_id v_key, date_trunc_minute p_now) = m"
    and "window_admits m (per_minute_quota v_key)"
    and "daily_quota v_key = Some Q"
    and "mcp_api_usage_daily s (key_id v_key, utc_date p_now) = Some d"
    and "\<not> request_count d < Q"
  shows "consume_mcp_api_request db_now s p_key_hash p_now =
           Inr (\<lparr>allowed = False, reason = ''daily_limit_exceeded'',
                 api_key_id = Some (key_id v_key), row_key_name = key_name v_key,
                 row_tier = Some (tier v_key), row_daily_quota = Some Q,
                 daily_count = Some (request_count d),
                 row_per_minute_quota = per_minute_quota v_key,
                 minute_count = Some (count_of m + 1)\<rparr>,
                s\<lparr>mcp_api_usage_minute :=
                    (mcp_api_usage_minute s)((key_id v_key, date_trunc_minute p_now) \<mapsto>
                      \<lparr>request_count = count_of m + 1, usage_updated_at = p_now\<rparr>)\<rparr>)"
  using assms
  by (simp add: consume_mcp_api_request_def rejection_row_def charge_window_admits
        charge_window_denies Let_def)

theorem daily_denial_keeps_minute_charge_witness:
  "consume_mcp_api_request 9 daily_full_db ''h1'' 1728000000000007 =
     Inr (\<lparr>allowed = False, reason = ''daily_limit_exceeded'',
           api_key_id = Some ''k1'', row_key_name = Some ''demo'',
           row_tier = Some ''free'', row_daily_quota = Some 2,
           daily_count = Some 2, row_per_minute_quota = Some 5,
           minute_count = Some 4\<rparr>,
          daily_full_db\<lparr>mcp_api_usage_minute :=
            (mcp_api_usage_minute daily_full_db)((''k1'', 1728000000000000) \<mapsto>
               \<lparr>request_count = 4, usage_updated_at = 1728000000000007\<rparr>)\<rparr>)"
  using daily_denial_keeps_minute_charge [of "''h1''" daily_full_db "example_key ''active'' (Some 2) (Some 5)" 1728000000000007
      "Some \<lparr>request_count = 3, usage_updated_at = 1\<rparr>" 2
      "\<lparr>request_count = 2, usage_updated_at = 1\<rparr>" 9]
  by (simp add: daily_full_db_def example_db_def example_key_def utc_date_def
      date_trunc_minute_def window_admits_def count_of_def int4_max_def)

text \<open>
  Claim C2, as the code has it. For an active credential with a finite daily quota
  \<open>Q\<close> (an \<^verbatim>\<open>integer\<close>) and an existing daily row at count \<open>c\<close>: a call changes the
  daily table only if \<open>c < Q\<close>, and then it is allowed and returns \<open>c + 1\<close>; and where
  the minute check admits the call, \<open>c < Q\<close> gives the allowed row with daily count
  \<open>c + 1\<close>, stored, while \<open>c \<ge> Q\<close> gives the denial \<^verbatim>\<open>daily_limit_exceeded\<close> with
  daily count \<open>c\<close> and the daily table as it was. With a daily quota of 2 and no minute
  quota, three calls on one day are allowed with 1, allowed with 2, and denied with 2.
  The minute check comes first: where it denies, the answer is
  \<^verbatim>\<open>minute_limit_exceeded\<close> whatever the daily count (the counterexample).
\<close>

theorem daily_step_after_minute_admission:
  assumes "find (\<lambda>k. key_hash k = p_key_hash) (mcp_api_keys s) = Some v_key"
    and "status v_key = ''active''"
    and "daily_quota v_key = Some Q"
    and "Q \<le> int4_max"
    and "mcp_api_usage_daily s (key_id v_key, utc_date p_now) = Some d"
    and "mcp_api_usage_minute s (key_id v_key, date_trunc_minute p_now) = m"
  shows "(\<forall>row s'. consume_mcp_api_request db_now s p_key_hash p_now = Inr (row, s') \<and>
             mcp_api_usage_daily s' \<noteq> mcp_api_usage_daily s \<longrightarrow>
           request_count d < Q \<and> allowed row \<and> daily_count row = Some (request_count d + 1) \<and>
           mcp_api_usage_daily s' =
             (mcp_api_usage_daily s)((key_id v_key, utc_date p_now) \<mapsto>
                \<lparr>request_count = request_count d + 1, usage_updated_at = p_now\<rparr>)) \<and>
         (window_admits m (per_minute_quota v_key) \<longrightarrow>
           (request_count d < Q \<longrightarrow>
              consume_mcp_api_request db_now s p_key_hash p_now =
                Inr (\<lparr>allowed = True, reason = ''ok'', api_key_id = Some (key_id v_key),
                      row_key_name = key_name v_key, row_tier = Some (tier v_key),
                      row_daily_quota = Some Q, daily_count = Some (request_count d + 1),
                      row_per_minute_quota = per_minute_quota v_key,
                      minute_count = Some (count_of m + 1)\<rparr>,
                     s\<lparr>mcp_api_usage_minute :=
                         (mcp_api_usage_minute s)((key_id v_key, date_trunc_minute p_now) \<mapsto>
                            \<lparr>request_count = count_of m + 1, usage_updated_at = p_now\<rparr>),
                       mcp_api_usage_daily :=
                         (mcp_api_usage_daily s)((key_id v_key, utc_date p_now) \<mapsto>
                            \<lparr>request_count = request_count d + 1, usage_updated_at = p_now\<rparr>),
                       mcp_api_keys :=
                         touch_last_used db_now p_now (key_id v_key) (mcp_api_keys s)\<rparr>)) \<and>
           (\<not> request_count d < Q \<longrightarrow>
              consume_mcp_api_request db_now s p_key_hash p_now =
                Inr (\<lparr>allowed = False, reason = ''daily_limit_exceeded'',
                      api_key_id = Some (key_id v_key), row_key_name = key_name v_key,
                      row_tier = Some (tier v_key), row_daily_quota = Some Q,
                      daily_count = Some (request_count d),
                      row_per_minute_quota = per_minute_quota v_key,
                      minute_count = Some (count_of m + 1)\<rparr>,
                     s\<lparr>mcp_api_usage_minute :=
                         (mcp_api_usage_minute s)((key_id v_key, date_trunc_minute p_now) \<mapsto>
                            \<lparr>request_count = count_of m + 1, usage_updated_at = p_now\<rparr>)\<rparr>))) \<and>
         map outcome (fst (consume_calls (fresh_db (Some 2) None) ''h1''
            [(1728000000000001, 1728000000000000), (1728000070000001, 1728000070000000),
             (1728000140000001, 1728000140000000)])) =
           [Some (True, ''ok'', Some 1, Some 1), Some (True, ''ok'', Some 2, Some 1),
            Some (False, ''daily_limit_exceeded'', Some 2, Some 1)]"
proof (intro conjI allI impI)
  fix row s'
  assume a: "consume_mcp_api_request db_now s p_key_hash p_now = Inr (row, s') \<and>
             mcp_api_usage_daily s' \<noteq> mcp_api_usage_daily s"
  let ?D = "charge_window (mcp_api_usage_daily s) (key_id v_key, utc_date p_now) (Some Q) p_now"
  from a assms obtain c ud where
    r: "?D = Inr (Some c, ud)" "allowed row" "daily_count row = Some c"
       "mcp_api_usage_daily s' = ud"
    by (auto simp: consume_mcp_api_request_def Let_def rejection_row_def
          split: sum.splits option.splits if_splits dest!: charge_window_cases)
  from charge_window_cases[OF r(1)] assms(5) have
    "c = request_count d + 1" "request_count d < Q"
    "ud = (mcp_api_usage_daily s)((key_id v_key, utc_date p_now) \<mapsto>
                \<lparr>request_count = request_count d + 1, usage_updated_at = p_now\<rparr>)"
    by (auto simp: count_of_def window_admits_def)
  with r show "request_count d < Q" "allowed row" "daily_count row = Some (request_count d + 1)"
    "mcp_api_usage_daily s' =
             (mcp_api_usage_daily s)((key_id v_key, utc_date p_now) \<mapsto>
                \<lparr>request_count = request_count d + 1, usage_updated_at = p_now\<rparr>)"
    by simp_all
next
  assume w: "window_admits m (per_minute_quota v_key)" and lt: "request_count d < Q"
  have "window_admits (mcp_api_usage_daily s (key_id v_key, utc_date p_now)) (Some Q)"
    using assms lt by (simp add: window_admits_def)
  then show "consume_mcp_api_request db_now s p_key_hash p_now =
                Inr (\<lparr>allowed = True, reason = ''ok'', api_key_id = Some (key_id v_key),
                      row_key_name = key_name v_key, row_tier = Some (tier v_key),
                      row_daily_quota = Some Q, daily_count = Some (request_count d + 1),
                      row_per_minute_quota = per_minute_quota v_key,
                      minute_count = Some (count_of m + 1)\<rparr>,
                     s\<lparr>mcp_api_usage_minute :=
                         (mcp_api_usage_minute s)((key_id v_key, date_trunc_minute p_now) \<mapsto>
                            \<lparr>request_count = count_of m + 1, usage_updated_at = p_now\<rparr>),
                       mcp_api_usage_daily :=
                         (mcp_api_usage_daily s)((key_id v_key, utc_date p_now) \<mapsto>
                            \<lparr>request_count = request_count d + 1, usage_updated_at = p_now\<rparr>),
                       mcp_api_keys :=
                         touch_last_used db_now p_now (key_id v_key) (mcp_api_keys s)\<rparr>)"
    using assms w
    by (simp add: consume_mcp_api_request_def Let_def charge_window_admits count_of_def)
next
  assume w: "window_admits m (per_minute_quota v_key)" and ge: "\<not> request_count d < Q"
  show "consume_mcp_api_request db_now s p_key_hash p_now =
                Inr (\<lparr>allowed = False, reason = ''daily_limit_exceeded'',
                      api_key_id = Some (key_id v_key), row_key_name = key_name v_key,
                      row_tier = Some (tier v_key), row_daily_quota = Some Q,
                      daily_count = Some (request_count d),
                      row_per_minute_quota = per_minute_quota v_key,
                      minute_count = Some (count_of m + 1)\<rparr>,
                     s\<lparr>mcp_api_usage_minute :=
                         (mcp_api_usage_minute s)((key_id v_key, date_trunc_minute p_now) \<mapsto>
                            \<lparr>request_count = count_of m + 1, usage_updated_at = p_now\<rparr>)\<rparr>)"
    using assms w ge
    by (simp add: consume_mcp_api_request_def rejection_row_def charge_window_admits
        charge_window_denies Let_def)
next
  show "map outcome (fst (consume_calls (fresh_db (Some 2) None) ''h1''
            [(1728000000000001, 1728000000000000), (1728000070000001, 1728000070000000),
             (1728000140000001, 1728000140000000)])) =
           [Some (True, ''ok'', Some 1, Some 1), Some (True, ''ok'', Some 2, Some 1),
            Some (False, ''daily_limit_exceeded'', Some 2, Some 1)]"
    by (rule daily_quota_two_scenario)
qed

text \<open>
  The second and the third call of that day, taken from the theorem: the daily row
  at 1 and at 2 of 2, in a minute that has no row yet.
\<close>

theorem daily_step_after_minute_admission_witness:
  "consume_mcp_api_request 9 daily_one_db ''h1'' 1728000000000007 =
     Inr (\<lparr>allowed = True, reason = ''ok'', api_key_id = Some ''k1'',
           row_key_name = Some ''demo'', row_tier = Some ''free'',
           row_daily_quota = Some 2, daily_count = Some 2,
           row_per_minute_quota = None, minute_count = Some 1\<rparr>,
          daily_one_db\<lparr>mcp_api_usage_minute :=
              (mcp_api_usage_minute daily_one_db)((''k1'', 1728000000000000) \<mapsto>
                 \<lparr>request_count = 1, usage_updated_at = 1728000000000007\<rparr>),
            mcp_api_usage_daily :=
              (mcp_api_usage_daily daily_one_db)((''k1'', 20000) \<mapsto>
                 \<lparr>request_count = 2, usage_updated_at = 1728000000000007\<rparr>),
            mcp_api_keys :=
              touch_last_used 9 1728000000000007 ''k1'' (mcp_api_keys daily_one_db)\<rparr>) \<and>
   consume_mcp_api_request 9 daily_two_db ''h1'' 1728000000000007 =
     Inr (\<lparr>allowed = False, reason = ''daily_limit_exceeded'', api_key_id = Some ''k1'',
           row_key_name = Some ''demo'', row_tier = Some ''free'',
           row_daily_quota = Some 2, daily_count = Some 2,
           row_per_minute_quota = None, minute_count = Some 1\<rparr>,
          daily_two_db\<lparr>mcp_api_usage_minute :=
              (mcp_api_usage_minute daily_two_db)((''k1'', 1728000000000000) \<mapsto>
                 \<lparr>request_count = 1, usage_updated_at = 1728000000000007\<rparr>)\<rparr>)"
  using daily_step_after_minute_admission
      [of "''h1''" daily_one_db "example_key ''active'' (Some 2) None" 2 1728000000000007
        "\<lparr>request_count = 1, usage_updated_at = 1\<rparr>" None 9,
       THEN conjunct2, THEN conjunct1]
    daily_step_after_minute_admission
      [of "''h1''" daily_two_db "example_key ''active'' (Some 2) None" 2 1728000000000007
        "\<lparr>request_count = 2, usage_updated_at = 1\<rparr>" None 9,
       THEN conjunct2, THEN conjunct1]
  by (simp add: daily_one_db_def daily_two_db_def example_db_def example_key_def utc_date_def
      date_trunc_minute_def window_admits_def count_of_def int4_max_def)

text \<open>
  Claim C2 as stated fails where the minute check denies first: the credential is
  active, its daily quota 2 is finite and its daily row stands at 2, yet the decision
  is \<^verbatim>\<open>minute_limit_exceeded\<close> with a null daily count, not
  \<^verbatim>\<open>daily_limit_exceeded\<close> with daily count 2.
\<close>

theorem daily_denial_needs_minute_admission_counterexample:
  "find (\<lambda>k. key_hash k = ''h1'') (mcp_api_keys both_full_db) =
     Some (example_key ''active'' (Some 2) (Some 5)) \<and>
   mcp_api_usage_daily both_full_db (''k1'', utc_date 1728000000000007) =
     Some \<lparr>request_count = 2, usage_updated_at = 1\<rparr> \<and>
   consume_mcp_api_request 9 both_full_db ''h1'' 1728000000000007 =
     Inr (\<lparr>allowed = False, reason = ''minute_limit_exceeded'',
           api_key_id = Some ''k1'', row_key_name = Some ''demo'',
           row_tier = Some ''free'', row_daily_quota = Some 2,
           daily_count = None, row_per_minute_quota = Some 5,
           minute_count = Some 5\<rparr>, both_full_db)"
  by (simp add: both_full_db_def example_db_def example_key_def utc_date_def
      date_trunc_minute_def consume_mcp_api_request_def charge_window_def
      upsert_increment_below_def rejection_row_def)

text \<open>
  Claim C1 at a quota of zero, which the column's check (\<^verbatim>\<open>per_minute_quota >= 0\<close>)
  and the key-creation script admit. The guard \<^verbatim>\<open>request_count < quota\<close> stands on
  the update only, so the first call of a window inserts the row with count 1: the
  call is allowed and the stored count 1 exceeds the quota 0. Of three calls in that
  minute one is admitted, not \<open>min 3 0 = 0\<close>.
\<close>

theorem zero_quota_admits_first_call:
  "consume_mcp_api_request 9 (fresh_db None (Some 0)) ''h1'' 1728000000000007 =
     Inr (\<lparr>allowed = True, reason = ''ok'', api_key_id = Some ''k1'',
           row_key_name = Some ''demo'', row_tier = Some ''free'',
           row_daily_quota = None, daily_count = Some 1,
           row_per_minute_quota = Some 0, minute_count = Some 1\<rparr>,
          \<lparr>mcp_api_keys =
              [(example_key ''active'' None (Some 0))
                 \<lparr>last_used_at := Some 1728000000000007, updated_at := 9\<rparr>],
            mcp_api_usage_daily =
              [(''k1'', 20000) \<mapsto>
                 \<lparr>request_count = 1, usage_updated_at = 1728000000000007\<rparr>],
            mcp_api_usage_minute =
              [(''k1'', 1728000000000000) \<mapsto>
                 \<lparr>request_count = 1, usage_updated_at = 1728000000000007\<rparr>]\<rparr>) \<and>
   map outcome (fst (consume_calls (fresh_db None (Some 0)) ''h1''
      [(1728000000000001, 1728000000000000), (1728000001000001, 1728000001000000),
       (1728000002000001, 1728000002000000)])) =
     [Some (True, ''ok'', Some 1, Some 1),
      Some (False, ''minute_limit_exceeded'', None, Some 1),
      Some (False, ''minute_limit_exceeded'', None, Some 1)]"
  by (simp add: fresh_db_def example_db_def example_key_def utc_date_def outcome_def
      date_trunc_minute_def consume_mcp_api_request_def charge_window_def
      upsert_increment_below_def upsert_increment_def rejection_row_def int4_max_def
      touch_last_used_def)

subsection \<open>Positive quotas\<close>

text \<open>
  For a quota of at least 1 the enforcement keeps every window of the key within the
  quota: a call that returns leaves a count that was at most \<open>Q\<close> at most \<open>Q\<close> (a call
  that raises changes nothing).
\<close>

theorem consume_keeps_quota:
  assumes "find (\<lambda>k. key_hash k = p_key_hash) (mcp_api_keys s) = Some v_key"
    and "consume_mcp_api_request db_now s p_key_hash p_now = Inr (row, s')"
    and "1 \<le> Q"
  shows "(per_minute_quota v_key = Some Q \<and>
            count_of (mcp_api_usage_minute s (key_id v_key, w)) \<le> Q \<longrightarrow>
          count_of (mcp_api_usage_minute s' (key_id v_key, w)) \<le> Q) \<and>
         (daily_quota v_key = Some Q \<and>
            count_of (mcp_api_usage_daily s (key_id v_key, w')) \<le> Q \<longrightarrow>
          count_of (mcp_api_usage_daily s' (key_id v_key, w')) \<le> Q)"
  using consume_tables[OF assms(1,2)] assms(3)
  by (auto dest: charge_window_bound)

theorem consume_keeps_quota_witness:
  "count_of (mcp_api_usage_minute daily_full_db (''k1'', 1728000000000000)) \<le> 5 \<and>
   count_of (mcp_api_usage_minute
      (daily_full_db\<lparr>mcp_api_usage_minute :=
         (mcp_api_usage_minute daily_full_db)((''k1'', 1728000000000000) \<mapsto>
            \<lparr>request_count = 4, usage_updated_at = 1728000000000007\<rparr>)\<rparr>)
      (''k1'', 1728000000000000)) \<le> 5"
  using consume_keeps_quota
      [of "''h1''" daily_full_db "example_key ''active'' (Some 2) (Some 5)" 9 1728000000000007
        "\<lparr>allowed = False, reason = ''daily_limit_exceeded'',
           api_key_id = Some ''k1'', row_key_name = Some ''demo'',
           row_tier = Some ''free'', row_daily_quota = Some 2,
           daily_count = Some 2, row_per_minute_quota = Some 5,
           minute_count = Some 4\<rparr>"
        "daily_full_db\<lparr>mcp_api_usage_minute :=
            (mcp_api_usage_minute daily_full_db)((''k1'', 1728000000000000) \<mapsto>
               \<lparr>request_count = 4, usage_updated_at = 1728000000000007\<rparr>)\<rparr>"
        5 1728000000000000 20000, THEN conjunct1]
    consume_at_daily_full_db
  by (simp add: daily_full_db_def example_db_def example_key_def count_of_def)

text \<open>
  Of \<open>n\<close> calls of the guarded upsert on a window that has no row yet, with a quota
  \<open>Q\<close> of at least 1, exactly \<open>min n Q\<close> are admitted, and the window then holds that
  count.
\<close>

theorem fresh_window_admits_min:
  assumes "tbl k = None" and "1 \<le> Q" and "Q \<le> int4_max"
  shows "fst (charge_repeatedly tbl k Q p_now n) = min n (nat Q) \<and>
         count_of (snd (charge_repeatedly tbl k Q p_now n) k) = int (min n (nat Q))"
proof (cases n)
  case 0
  then show ?thesis using assms by (simp add: count_of_def)
next
  case (Suc m)
  let ?r = "\<lparr>request_count = 1, usage_updated_at = p_now\<rparr>"
  have step: "upsert_increment_below tbl k Q p_now = Inr (Some 1, tbl(k \<mapsto> ?r))"
    using assms by (simp add: upsert_increment_below_def)
  obtain a t where rest: "charge_repeatedly (tbl(k \<mapsto> ?r)) k Q p_now m = (a, t)"
    by (cases "charge_repeatedly (tbl(k \<mapsto> ?r)) k Q p_now m")
  have "fst (charge_repeatedly (tbl(k \<mapsto> ?r)) k Q p_now m) = min m (nat (Q - request_count ?r)) \<and>
        count_of (snd (charge_repeatedly (tbl(k \<mapsto> ?r)) k Q p_now m) k) =
          request_count ?r + int (min m (nat (Q - request_count ?r)))"
    using assms by (intro charge_repeatedly_from_row) simp_all
  then have ih: "a = min m (nat (Q - 1))" "count_of (t k) = 1 + int (min m (nat (Q - 1)))"
    by (simp_all add: rest)
  have "charge_repeatedly tbl k Q p_now n = (Suc a, t)"
    by (simp add: Suc step rest)
  moreover have "nat Q = Suc (nat (Q - 1))"
    using assms(2) by simp
  ultimately show ?thesis
    using ih Suc by simp
qed

theorem fresh_window_admits_min_witness:
  "fst (charge_repeatedly (Map.empty :: string \<rightharpoonup> usage_row) ''w'' 2 7 (Suc (Suc (Suc 0)))) = 2 \<and>
   count_of (snd (charge_repeatedly (Map.empty :: string \<rightharpoonup> usage_row) ''w'' 2 7
      (Suc (Suc (Suc 0)))) ''w'') = 2"
  using fresh_window_admits_min [of "Map.empty :: string \<rightharpoonup> usage_row" "''w''" 2 7 "Suc (Suc (Suc 0))"]
  by (simp add: int4_max_def)

section \<open>Claims about \<^verbatim>\<open>revoke_user_api_key\<close>\<close>

text \<open>
  Claim C7. The first call on an active key that the caller owns returns true and
  leaves the key revoked; a second call on the state the first one left returns false
  and changes nothing. On any state in which every row of that identifier is revoked
  the call returns false and changes nothing, and no call, by anyone on any key, turns
  a revoked row into one that is not revoked.
\<close>

theorem revoke_is_idempotent:
  assumes "k \<in> set (mcp_api_keys s)"
    and "key_id k = p_key_id"
    and "user_id k = Some uid"
    and "status k = ''active''"
  shows "(\<exists>s1. revoke_user_api_key t1 (Some uid) s p_key_id = Inr (True, s1) \<and>
            k\<lparr>status := ''revoked'', updated_at := t1\<rparr> \<in> set (mcp_api_keys s1) \<and>
            revoke_user_api_key t2 (Some uid) s1 p_key_id = Inr (False, s1)) \<and>
         (\<forall>t s0. (\<forall>k' \<in> set (mcp_api_keys s0). key_id k' = p_key_id \<longrightarrow> status k' = ''revoked'') \<longrightarrow>
            revoke_user_api_key t (Some uid) s0 p_key_id = Inr (False, s0)) \<and>
         (\<forall>t a s0 x b s2. revoke_user_api_key t a s0 x = Inr (b, s2) \<longrightarrow>
            length (mcp_api_keys s2) = length (mcp_api_keys s0) \<and>
            (\<forall>i < length (mcp_api_keys s0).
               status (mcp_api_keys s0 ! i) = ''revoked'' \<longrightarrow>
               status (mcp_api_keys s2 ! i) = ''revoked''))"
proof -
  let ?s1 = "s\<lparr>mcp_api_keys := map (revoke_row t1 p_key_id uid) (mcp_api_keys s)\<rparr>"
  have hit: "owned_active p_key_id uid k"
    using assms by (simp add: owned_active_def)
  then have first: "revoke_user_api_key t1 (Some uid) s p_key_id = Inr (True, ?s1)"
    using assms(1) by (auto simp: revoke_user_api_key_def list_ex_iff)
  have "revoke_row t1 p_key_id uid k \<in> set (mcp_api_keys ?s1)"
    using assms(1) by simp
  then have mem: "k\<lparr>status := ''revoked'', updated_at := t1\<rparr> \<in> set (mcp_api_keys ?s1)"
    using hit by (simp add: revoke_row_def)
  have second: "revoke_user_api_key t2 (Some uid) ?s1 p_key_id = Inr (False, ?s1)"
    by (simp add: revoke_user_api_key_def revoke_twice_rows revoke_leaves_none)
  from first mem second have twice:
    "\<exists>s1. revoke_user_api_key t1 (Some uid) s p_key_id = Inr (True, s1) \<and>
            k\<lparr>status := ''revoked'', updated_at := t1\<rparr> \<in> set (mcp_api_keys s1) \<and>
            revoke_user_api_key t2 (Some uid) s1 p_key_id = Inr (False, s1)"
    by blast
  have settled: "\<forall>t s0. (\<forall>k' \<in> set (mcp_api_keys s0). key_id k' = p_key_id \<longrightarrow> status k' = ''revoked'') \<longrightarrow>
            revoke_user_api_key t (Some uid) s0 p_key_id = Inr (False, s0)"
    by (simp add: revoke_already_revoked)
  have never: "\<forall>t a s0 x b s2. revoke_user_api_key t a s0 x = Inr (b, s2) \<longrightarrow>
            length (mcp_api_keys s2) = length (mcp_api_keys s0) \<and>
            (\<forall>i < length (mcp_api_keys s0).
               status (mcp_api_keys s0 ! i) = ''revoked'' \<longrightarrow>
               status (mcp_api_keys s2 ! i) = ''revoked'')"
    using revoke_never_reactivates by blast
  from twice settled never show ?thesis by (intro conjI)
qed

theorem revoke_is_idempotent_witness:
  "revoke_user_api_key 5 (Some ''u1'') (fresh_db (Some 100) (Some 20)) ''k1'' =
     Inr (True, example_db ((example_key ''active'' (Some 100) (Some 20))
                              \<lparr>status := ''revoked'', updated_at := 5\<rparr>) Map.empty Map.empty) \<and>
   revoke_user_api_key 6 (Some ''u1'')
      (example_db ((example_key ''active'' (Some 100) (Some 20))
                              \<lparr>status := ''revoked'', updated_at := 5\<rparr>) Map.empty Map.empty) ''k1'' =
     Inr (False, example_db ((example_key ''active'' (Some 100) (Some 20))
                              \<lparr>status := ''revoked'', updated_at := 5\<rparr>) Map.empty Map.empty)"
  using revoke_is_idempotent
      [of "example_key ''active'' (Some 100) (Some 20)" "fresh_db (Some 100) (Some 20)"
        "''k1''" "''u1''" 5 6, THEN conjunct1]
  by (simp add: fresh_db_def example_db_def example_key_def revoke_user_api_key_def
      revoke_row_def owned_active_def)

section \<open>Claims about the gateway and the transport\<close>

text \<open>
  Claim C4. When the consume RPC returned an error, \<^verbatim>\<open>authorizeApiKey\<close> reaches the
  match against the environment's keys only if the fallback is enabled and the message
  has the not-provisioned signature of \<open>isRpcMissing\<close>; then the outcome is that of the
  match. In every other case (any other message, or the fallback disabled) the result
  is the backend-unavailable denial with status 500, and nothing is admitted.
\<close>

theorem fallback_only_when_not_provisioned:
  "authorizeApiKey hashApiKey (RpcError msg) apiKey True allowEnvFallback envKeys =
     (if allowEnvFallback \<and> isRpcMissing (case msg of None \<Rightarrow> [] | Some m \<Rightarrow> m)
      then (if isApiKeyAllowed apiKey envKeys
            then Ok (buildEnvContext hashApiKey apiKey)
            else Rejected \<lparr>httpStatus = 403, jsonRpcCode = - 32003,
                   message = ''Invalid API key.'', retryAfterSec = None\<rparr>)
      else Rejected \<lparr>httpStatus = 500, jsonRpcCode = - 32603,
             message = ''API key validation backend is unavailable. Run DB migration for consume_mcp_api_request().'',
             retryAfterSec = None\<rparr>)"
  by (simp add: authorize_backend_error env_fallback_def invalid_key_error_def
      backend_unavailable_error_def)

text \<open>
  A generic fault with the fallback enabled and a key that the environment lists: the
  answer is the 500 denial. The not-provisioned message admits that key through the
  fallback when it is enabled, and gives the 500 denial when it is disabled.
\<close>

theorem fallback_only_when_not_provisioned_witness:
  "isApiKeyAllowed ''secret'' [''other'', ''secret''] \<and>
   authorizeApiKey example_hash (RpcError (Some ''connection refused'')) ''secret'' True True
       [''other'', ''secret''] =
     Rejected \<lparr>httpStatus = 500, jsonRpcCode = - 32603,
       message = ''API key validation backend is unavailable. Run DB migration for consume_mcp_api_request().'',
       retryAfterSec = None\<rparr> \<and>
   authorizeApiKey example_hash
       (RpcError (Some ''Could not find the function public.consume_mcp_api_request(p_key_hash, p_now) in the schema cache''))
       ''secret'' True True [''other'', ''secret''] =
     Ok (buildEnvContext example_hash ''secret'') \<and>
   authorizeApiKey example_hash
       (RpcError (Some ''Could not find the function public.consume_mcp_api_request(p_key_hash, p_now) in the schema cache''))
       ''secret'' True False [''other'', ''secret''] =
     Rejected \<lparr>httpStatus = 500, jsonRpcCode = - 32603,
       message = ''API key validation backend is unavailable. Run DB migration for consume_mcp_api_request().'',
       retryAfterSec = None\<rparr>"
  using fallback_only_when_not_provisioned
      [of example_hash "Some ''connection refused''" "''secret''" True "[''other'', ''secret'']"]
    fallback_only_when_not_provisioned
      [of example_hash
        "Some ''Could not find the function public.consume_mcp_api_request(p_key_hash, p_now) in the schema cache''"
        "''secret''" True "[''other'', ''secret'']"]
    fallback_only_when_not_provisioned
      [of example_hash
        "Some ''Could not find the function public.consume_mcp_api_request(p_key_hash, p_now) in the schema cache''"
        "''secret''" False "[''other'', ''secret'']"]
  by (simp add: generic_fault_not_missing missing_function_is_missing isApiKeyAllowed_def
      timingSafeEqual_def)

text \<open>
  Claim C6. A row that is not allowed maps by its reason: \<^verbatim>\<open>invalid_key\<close> and
  \<^verbatim>\<open>revoked_key\<close> to status 403 with no retry hint, \<^verbatim>\<open>minute_limit_exceeded\<close> to
  429 with a retry after 60 seconds, \<^verbatim>\<open>daily_limit_exceeded\<close> to 429 with a retry
  after 3600 seconds; a backend error whose message lacks the not-provisioned
  signature maps to 500 with no retry hint.
\<close>

theorem rejection_transport_mapping:
  assumes "\<not> allowed row"
  shows "(reason row = ''invalid_key'' \<or> reason row = ''revoked_key'' \<longrightarrow>
            authorizeApiKey hashApiKey (RpcData (Some (row # rest))) apiKey True fb envKeys =
              Rejected \<lparr>httpStatus = 403, jsonRpcCode = - 32003,
                message = ''Invalid API key.'', retryAfterSec = None\<rparr>) \<and>
         (reason row = ''minute_limit_exceeded'' \<longrightarrow>
            authorizeApiKey hashApiKey (RpcData (Some (row # rest))) apiKey True fb envKeys =
              Rejected \<lparr>httpStatus = 429, jsonRpcCode = - 32029,
                message = ''Per-minute rate limit exceeded.'', retryAfterSec = Some 60\<rparr>) \<and>
         (reason row = ''daily_limit_exceeded'' \<longrightarrow>
            authorizeApiKey hashApiKey (RpcData (Some (row # rest))) apiKey True fb envKeys =
              Rejected \<lparr>httpStatus = 429, jsonRpcCode = - 32029,
                message = ''Daily API quota exceeded.'', retryAfterSec = Some 3600\<rparr>) \<and>
         (\<not> isRpcMissing (case msg of None \<Rightarrow> [] | Some m \<Rightarrow> m) \<longrightarrow>
            authorizeApiKey hashApiKey (RpcError msg) apiKey True fb envKeys =
              Rejected \<lparr>httpStatus = 500, jsonRpcCode = - 32603,
                message = ''API key validation backend is unavailable. Run DB migration for consume_mcp_api_request().'',
                retryAfterSec = None\<rparr>)"
proof -
  have row: "authorizeApiKey hashApiKey (RpcData (Some (row # rest))) apiKey True fb envKeys =
      Rejected (mapRpcRejection (reason row))"
    using assms by (simp add: authorizeApiKey_def)
  show ?thesis
    unfolding row
    by (auto simp: mapRpcRejection_def invalid_key_error_def authorize_backend_error
        backend_unavailable_error_def)
qed

theorem rejection_transport_mapping_witness:
  "authorizeApiKey example_hash
       (RpcData (Some [rejection_row ''revoked_key'' (example_key ''revoked'' (Some 100) (Some 20)) None None]))
       ''secret'' True True [] =
     Rejected \<lparr>httpStatus = 403, jsonRpcCode = - 32003,
       message = ''Invalid API key.'', retryAfterSec = None\<rparr> \<and>
   authorizeApiKey example_hash
       (RpcData (Some [rejection_row ''minute_limit_exceeded''
          (example_key ''active'' (Some 100) (Some 20)) None (Some 20)]))
       ''secret'' True True [] =
     Rejected \<lparr>httpStatus = 429, jsonRpcCode = - 32029,
       message = ''Per-minute rate limit exceeded.'', retryAfterSec = Some 60\<rparr> \<and>
   authorizeApiKey example_hash
       (RpcData (Some [rejection_row ''daily_limit_exceeded''
          (example_key ''active'' (Some 100) (Some 20)) (Some 100) (Some 3)]))
       ''secret'' True True [] =
     Rejected \<lparr>httpStatus = 429, jsonRpcCode = - 32029,
       message = ''Daily API quota exceeded.'', retryAfterSec = Some 3600\<rparr> \<and>
   authorizeApiKey example_hash (RpcError (Some ''connection refused'')) ''secret'' True True [] =
     Rejected \<lparr>httpStatus = 500, jsonRpcCode = - 32603,
       message = ''API key validation backend is unavailable. Run DB migration for consume_mcp_api_request().'',
       retryAfterSec = None\<rparr>"
  using rejection_transport_mapping
      [where row = "rejection_row ''revoked_key'' (example_key ''revoked'' (Some 100) (Some 20)) None None"
         and msg = "Some ''connection refused''" and hashApiKey = example_hash and rest = "[]"
         and apiKey = "''secret''" and fb = True and envKeys = "[]"]
    rejection_transport_mapping
      [where row = "rejection_row ''minute_limit_exceeded''
             (example_key ''active'' (Some 100) (Some 20)) None (Some 20)"
         and msg = "Some ''connection refused''" and hashApiKey = example_hash and rest = "[]"
         and apiKey = "''secret''" and fb = True and envKeys = "[]"]
    rejection_transport_mapping
      [where row = "rejection_row ''daily_limit_exceeded''
             (example_key ''active'' (Some 100) (Some 20)) (Some 100) (Some 3)"
         and msg = "Some ''connection refused''" and hashApiKey = example_hash and rest = "[]"
         and apiKey = "''secret''" and fb = True and envKeys = "[]"]
  by (simp add: rejection_row_def generic_fault_not_missing)

text \<open>
  Claim C10. Every reason other than the two rate-limit reasons, so
  \<^verbatim>\<open>invalid_key\<close>, \<^verbatim>\<open>revoked_key\<close> and any string the function does not know, maps
  to one and the same error: status 403, code -32003, the message
  \<^verbatim>\<open>Invalid API key.\<close> and no retry hint.
\<close>

theorem unknown_reasons_fail_closed:
  assumes "r1 \<noteq> ''minute_limit_exceeded''" and "r1 \<noteq> ''daily_limit_exceeded''"
    and "r2 \<noteq> ''minute_limit_exceeded''" and "r2 \<noteq> ''daily_limit_exceeded''"
  shows "mapRpcRejection r1 = mapRpcRejection r2 \<and>
         mapRpcRejection r1 =
           \<lparr>httpStatus = 403, jsonRpcCode = - 32003, message = ''Invalid API key.'',
            retryAfterSec = None\<rparr>"
  using assms by (simp add: mapRpcRejection_def invalid_key_error_def)

theorem unknown_reasons_fail_closed_witness:
  "mapRpcRejection ''invalid_key'' = mapRpcRejection ''revoked_key'' \<and>
   mapRpcRejection ''invalid_key'' =
     \<lparr>httpStatus = 403, jsonRpcCode = - 32003, message = ''Invalid API key.'',
      retryAfterSec = None\<rparr> \<and>
   mapRpcRejection ''quota_service_down'' = mapRpcRejection ''revoked_key''"
  using unknown_reasons_fail_closed [of "''invalid_key''" "''revoked_key''"]
    unknown_reasons_fail_closed [of "''quota_service_down''" "''revoked_key''"]
  by auto

text \<open>
  Claim C9. After a successful admission the middleware sets, per window, the limit
  header to the quota and the remaining header to \<open>max 0 (quota - count)\<close>, both in
  decimal: the limit header exactly when the quota is finite, the remaining header
  exactly when the quota is finite and the count is present. A remaining value is
  never negative.
\<close>

theorem remaining_headers_floored:
  assumes "mcpHttpRequireApiKey config" and "k \<noteq> []"
    and "authorizeApiKey hashApiKey rpc k (mcpHttpUseDbKeys config)
           (mcpHttpAllowEnvKeyFallback config) (mcpHttpApiKeys config) = Ok c"
  shows "\<exists>hs req. mcp_auth_middleware config hashApiKey rpc (Some k) = Next hs req \<and>
           map_of hs ''X-RateLimit-Daily-Limit'' = map_option String_of_number (dailyQuota c) \<and>
           map_of hs ''X-RateLimit-Minute-Limit'' = map_option String_of_number (minuteQuota c) \<and>
           map_of hs ''X-RateLimit-Daily-Remaining'' =
             (case dailyQuota c of
                None \<Rightarrow> None
              | Some q \<Rightarrow> (case dailyCount c of
                            None \<Rightarrow> None
                          | Some n \<Rightarrow> Some (String_of_number (max 0 (q - n))))) \<and>
           map_of hs ''X-RateLimit-Minute-Remaining'' =
             (case minuteQuota c of
                None \<Rightarrow> None
              | Some q \<Rightarrow> (case minuteCount c of
                            None \<Rightarrow> None
                          | Some n \<Rightarrow> Some (String_of_number (max 0 (q - n))))) \<and>
           (\<forall>r. dailyRemaining c = Some r \<or> minuteRemaining c = Some r \<longrightarrow> 0 \<le> r)"
proof -
  note ctx = authorize_ok_context[OF assms(3)]
  have "\<forall>r. dailyRemaining c = Some r \<or> minuteRemaining c = Some r \<longrightarrow> 0 \<le> r"
    using ctx by (auto simp: remaining_def split: option.splits)
  then show ?thesis
    using middleware_ok[OF assms] ctx
    by (simp add: header_daily_limit header_daily_remaining header_minute_limit
        header_minute_remaining remaining_def split: option.splits)
qed

text \<open>
  95 of 100 used on the day leaves 5; the minute window is unlimited, so it has no
  headers. 7 used of a quota of 5 leaves 0, not -2.
\<close>

theorem remaining_headers_floored_witness:
  "(\<exists>hs req. mcp_auth_middleware example_config example_hash
       (RpcData (Some [ok_row (Some 100) (Some 95) None (Some 7)])) (Some ''secret'') = Next hs req \<and>
     map_of hs ''X-RateLimit-Daily-Limit'' = Some ''100'' \<and>
     map_of hs ''X-RateLimit-Minute-Limit'' = None \<and>
     map_of hs ''X-RateLimit-Daily-Remaining'' = Some ''5'' \<and>
     map_of hs ''X-RateLimit-Minute-Remaining'' = None) \<and>
   (\<exists>hs req. mcp_auth_middleware example_config example_hash
       (RpcData (Some [ok_row None (Some 95) (Some 5) (Some 7)])) (Some ''secret'') = Next hs req \<and>
     map_of hs ''X-RateLimit-Daily-Limit'' = None \<and>
     map_of hs ''X-RateLimit-Minute-Limit'' = Some ''5'' \<and>
     map_of hs ''X-RateLimit-Daily-Remaining'' = None \<and>
     map_of hs ''X-RateLimit-Minute-Remaining'' = Some ''0'')"
  using remaining_headers_floored [of example_config "''secret''" example_hash
      "RpcData (Some [ok_row (Some 100) (Some 95) None (Some 7)])"
      "\<lparr>keyId = ''k1'', keyName = Some ''demo'', ctx_tier = ''free'',
        fingerprint = ''sha256:secre'', source = Db, dailyQuota = Some 100,
        dailyCount = Some 95, minuteQuota = None, minuteCount = Some 7,
        dailyRemaining = Some 5, minuteRemaining = None\<rparr>"]
    remaining_headers_floored [of example_config "''secret''" example_hash
      "RpcData (Some [ok_row None (Some 95) (Some 5) (Some 7)])"
      "\<lparr>keyId = ''k1'', keyName = Some ''demo'', ctx_tier = ''free'',
        fingerprint = ''sha256:secre'', source = Db, dailyQuota = None,
        dailyCount = Some 95, minuteQuota = Some 5, minuteCount = Some 7,
        dailyRemaining = None, minuteRemaining = Some 0\<rparr>"]
  by (simp add: example_config_def example_hash_def ok_row_def authorizeApiKey_def
      keyFingerprint_def remaining_def normalizeTier_def trim_def toLowerCase_def
      lower_char_def js_space_def String_of_number_def nat_digits.simps)

text \<open>
  Claim C8. With API keys required, a request of any of the three methods of
  \<^verbatim>\<open>/mcp\<close> that carries the identifier of an open session and is authorized on its
  own, with a key whose hash is not empty (a SHA-256 digest has 64 characters), is
  answered with status 403, code -32003 and \<^verbatim>\<open>Session not valid for this API key.\<close>
  when the fingerprint of its key differs from the one the session holds: it is not
  handed to the session's transport and the sessions are left as they were. When the
  two fingerprints are equal it is handed to the session's transport.
\<close>

theorem session_rejects_other_fingerprint:
  assumes "mcpHttpRequireApiKey config" and "k \<noteq> []"
    and "authorizeApiKey hashApiKey rpc k (mcpHttpUseDbKeys config)
           (mcpHttpAllowEnvKeyFallback config) (mcpHttpApiKeys config) = Ok c"
    and "hashApiKey k \<noteq> []"
    and "getSessionId sessionHeader = Some sid"
    and "sessions sid = Some sc"
  shows "handle_mcp meth config hashApiKey rpc sessions now run (Some k) sessionHeader body =
         (if apiKeyFingerprint sc \<noteq> keyFingerprint hashApiKey k
          then (Handled (rate_limit_headers c)
                  (JsonRpcError 403 (- 32003) ''Session not valid for this API key.''),
                sessions)
          else (Handled (rate_limit_headers c) (Forwarded sid (reply_of run)),
                run_callbacks sc now (events run) sessions))"
proof -
  have fp: "keyFingerprint hashApiKey k \<noteq> []"
    using assms(4) by (simp add: keyFingerprint_def)
  note mw = middleware_ok[OF assms(1-3)]
  show ?thesis
  proof (cases meth)
    case POST
    then show ?thesis
      using assms(1,5,6) fp
      by (auto simp: handle_mcp_def mw post_mcp_def truthy_def)
  next
    case GET
    then show ?thesis
      using assms(1,5,6) fp
      by (auto simp: handle_mcp_def mw get_mcp_def truthy_def)
  next
    case DELETE
    then show ?thesis
      using assms(1,5,6) fp
      by (auto simp: handle_mcp_def mw delete_mcp_def truthy_def)
  qed
qed

text \<open>
  The session \<open>s1\<close> was opened with the key \<open>alice\<close>; the header carries its
  identifier between a no-break space and a space. The key \<open>bobby\<close>, valid on its
  own, is turned away on that session by each of the three methods; \<open>alice\<close> is
  forwarded, and her \<^verbatim>\<open>DELETE\<close>, on which the transport closes the session, removes
  it.
\<close>

theorem session_rejects_other_fingerprint_witness:
  "handle_mcp POST example_config example_hash
      (RpcData (Some [ok_row None (Some 1) None (Some 1)])) alice_session 3 quiet_run
      (Some ''bobby'') (Single (CHR 0xA0 # ''s1 '')) NoBody =
     (Handled [(''X-API-Key-Tier'', ''free''), (''X-API-Key-Source'', ''db'')]
        (JsonRpcError 403 (- 32003) ''Session not valid for this API key.''), alice_session) \<and>
   handle_mcp GET example_config example_hash
      (RpcData (Some [ok_row None (Some 1) None (Some 1)])) alice_session 3 quiet_run
      (Some ''bobby'') (Single (CHR 0xA0 # ''s1 '')) NoBody =
     (Handled [(''X-API-Key-Tier'', ''free''), (''X-API-Key-Source'', ''db'')]
        (JsonRpcError 403 (- 32003) ''Session not valid for this API key.''), alice_session) \<and>
   handle_mcp DELETE example_config example_hash
      (RpcData (Some [ok_row None (Some 1) None (Some 1)])) alice_session 3 closing_run
      (Some ''bobby'') (Single (CHR 0xA0 # ''s1 '')) NoBody =
     (Handled [(''X-API-Key-Tier'', ''free''), (''X-API-Key-Source'', ''db'')]
        (JsonRpcError 403 (- 32003) ''Session not valid for this API key.''), alice_session) \<and>
   handle_mcp POST example_config example_hash
      (RpcData (Some [ok_row None (Some 1) None (Some 1)])) alice_session 3 quiet_run
      (Some ''alice'') (Single (CHR 0xA0 # ''s1 '')) NoBody =
     (Handled [(''X-API-Key-Tier'', ''free''), (''X-API-Key-Source'', ''db'')]
        (Forwarded ''s1'' TransportReplied), alice_session) \<and>
   handle_mcp GET example_config example_hash
      (RpcData (Some [ok_row None (Some 1) None (Some 1)])) alice_session 3 quiet_run
      (Some ''alice'') (Single (CHR 0xA0 # ''s1 '')) NoBody =
     (Handled [(''X-API-Key-Tier'', ''free''), (''X-API-Key-Source'', ''db'')]
        (Forwarded ''s1'' TransportReplied), alice_session) \<and>
   handle_mcp DELETE example_config example_hash
      (RpcData (Some [ok_row None (Some 1) None (Some 1)])) alice_session 3 closing_run
      (Some ''alice'') (Single (CHR 0xA0 # ''s1 '')) NoBody =
     (Handled [(''X-API-Key-Tier'', ''free''), (''X-API-Key-Source'', ''db'')]
        (Forwarded ''s1'' TransportReplied), Map.empty)"
  using session_rejects_other_fingerprint
      [where config = example_config and k = "''bobby''" and hashApiKey = example_hash
         and rpc = "RpcData (Some [ok_row None (Some 1) None (Some 1)])"
         and c = "db_context ''sha256:bobby''"
         and sessionHeader = "Single (CHR 0xA0 # ''s1 '')" and sid = "''s1''"
         and sessions = alice_session and sc = alice_context
         and now = 3 and run = quiet_run and body = NoBody and meth = POST]
    session_rejects_other_fingerprint
      [where config = example_config and k = "''bobby''" and hashApiKey = example_hash
         and rpc = "RpcData (Some [ok_row None (Some 1) None (Some 1)])"
         and c = "db_context ''sha256:bobby''"
         and sessionHeader = "Single (CHR 0xA0 # ''s1 '')" and sid = "''s1''"
         and sessions = alice_session and sc = alice_context
         and now = 3 and run = quiet_run and body = NoBody and meth = GET]
    session_rejects_other_fingerprint
      [where config = example_config and k = "''bobby''" and hashApiKey = example_hash
         and rpc = "RpcData (Some [ok_row None (Some 1) None (Some 1)])"
         and c = "db_context ''sha256:bobby''"
         and sessionHeader = "Single (CHR 0xA0 # ''s1 '')" and sid = "''s1''"
         and sessions = alice_session and sc = alice_context
         and now = 3 and run = closing_run and body = NoBody and meth = DELETE]
    session_rejects_other_fingerprint
      [where config = example_config and k = "''alice''" and hashApiKey = example_hash
         and rpc = "RpcData (Some [ok_row None (Some 1) None (Some 1)])"
         and c = "db_context ''sha256:alice''"
         and sessionHeader = "Single (CHR 0xA0 # ''s1 '')" and sid = "''s1''"
         and sessions = alice_session and sc = alice_context
         and now = 3 and run = quiet_run and body = NoBody and meth = POST]
    session_rejects_other_fingerprint
      [where config = example_config and k = "''alice''" and hashApiKey = example_hash
         and rpc = "RpcData (Some [ok_row None (Some 1) None (Some 1)])"
         and c = "db_context ''sha256:alice''"
         and sessionHeader = "Single (CHR 0xA0 # ''s1 '')" and sid = "''s1''"
         and sessions = alice_session and sc = alice_context
         and now = 3 and run = quiet_run and body = NoBody and meth = GET]
    session_rejects_other_fingerprint
      [where config = example_config and k = "''alice''" and hashApiKey = example_hash
         and rpc = "RpcData (Some [ok_row None (Some 1) None (Some 1)])"
         and c = "db_context ''sha256:alice''"
         and sessionHeader = "Single (CHR 0xA0 # ''s1 '')" and sid = "''s1''"
         and sessions = alice_session and sc = alice_context
         and now = 3 and run = closing_run and body = NoBody and meth = DELETE]
  by (simp add: example_context_facts session_header_s1 alice_session_def
      rate_limit_headers_db_context reply_of_def quiet_run_def closing_run_def
      cleanupSession_def alice_context_def example_hash_def keyFingerprint_def)

text \<open>
  Where the session comes from: an authorized initialize request without a session
  identifier is handed to a new transport. If that transport accepts it and calls
  \<^verbatim>\<open>onsessioninitialized\<close>, the new session is stored under the fingerprint of the
  key that opened it; if the transport calls nothing, nothing is stored.
\<close>

theorem initialize_binds_fingerprint:
  assumes "mcpHttpRequireApiKey config" and "k \<noteq> []"
    and "authorizeApiKey hashApiKey rpc k (mcpHttpUseDbKeys config)
           (mcpHttpAllowEnvKeyFallback config) (mcpHttpApiKeys config) = Ok c"
    and "hashApiKey k \<noteq> []"
    and "getSessionId sessionHeader = None"
    and "isInitializeRequestBody body"
  shows "(events run = [SessionInitialized newSessionId] \<longrightarrow>
           (\<exists>sessions'. handle_mcp POST config hashApiKey rpc sessions now run (Some k)
               sessionHeader body =
                 (Handled (rate_limit_headers c) (NewTransport (reply_of run)), sessions') \<and>
               map_option apiKeyFingerprint (sessions' newSessionId) =
                 Some (keyFingerprint hashApiKey k))) \<and>
         (events run = [] \<longrightarrow>
            handle_mcp POST config hashApiKey rpc sessions now run (Some k) sessionHeader body =
              (Handled (rate_limit_headers c) (NewTransport (reply_of run)), sessions))"
proof -
  have "keyFingerprint hashApiKey k \<noteq> []"
    using assms(4) by (simp add: keyFingerprint_def)
  then show ?thesis
    using assms(1,5,6)
    by (simp add: handle_mcp_def middleware_ok[OF assms(1-3)] post_mcp_def or_default_def)
qed

theorem initialize_binds_fingerprint_witness:
  "(\<exists>sessions'. handle_mcp POST example_config example_hash
      (RpcData (Some [ok_row None (Some 1) None (Some 1)])) Map.empty 3
      \<lparr>events = [SessionInitialized ''s1''], threw = False, headersSent = False\<rparr>
      (Some ''alice'') Absent (Object (Some ''2.0'') (Some ''initialize'')) =
        (Handled (rate_limit_headers (db_context ''sha256:alice''))
           (NewTransport TransportReplied), sessions') \<and>
      map_option apiKeyFingerprint (sessions' ''s1'') = Some ''sha256:alice'') \<and>
   handle_mcp POST example_config example_hash
      (RpcData (Some [ok_row None (Some 1) None (Some 1)])) Map.empty 3 quiet_run
      (Some ''alice'') Absent (Object (Some ''2.0'') (Some ''initialize'')) =
        (Handled (rate_limit_headers (db_context ''sha256:alice''))
           (NewTransport TransportReplied), Map.empty)"
  using initialize_binds_fingerprint
      [where config = example_config and k = "''alice''" and hashApiKey = example_hash
         and rpc = "RpcData (Some [ok_row None (Some 1) None (Some 1)])"
         and c = "db_context ''sha256:alice''" and sessionHeader = Absent
         and body = "Object (Some ''2.0'') (Some ''initialize'')" and sessions = Map.empty
         and now = 3 and newSessionId = "''s1''"
         and run = "\<lparr>events = [SessionInitialized ''s1''], threw = False, headersSent = False\<rparr>"]
    initialize_binds_fingerprint
      [where config = example_config and k = "''alice''" and hashApiKey = example_hash
         and rpc = "RpcData (Some [ok_row None (Some 1) None (Some 1)])"
         and c = "db_context ''sha256:alice''" and sessionHeader = Absent
         and body = "Object (Some ''2.0'') (Some ''initialize'')" and sessions = Map.empty
         and now = 3 and newSessionId = "''s1''" and run = quiet_run]
  by (simp add: example_context_facts reply_of_def quiet_run_def getSessionId_def
      isInitializeRequestBody_def example_hash_def keyFingerprint_def)

end
